theory Spec2Isabelle
  imports Main "HOL-Library.Word" "HOL-Library.Signed_Division" "HOL-Library.Sublist"
begin

section \<open>The resource provider controller of lilypad\<close>

text \<open>
  The controller (package \<open>resourceprovider\<close>) keeps the resource offers and the deals of one
  resource provider in step with the solver. This theory embeds its functions
  \<open>subscribeToSolver\<close>, \<open>subscribeToWeb3\<close>, \<open>Start\<close>, \<open>solve\<close>, \<open>agreeToDeals\<close>,
  \<open>getResourceOffer\<close> and \<open>ensureResourceOffers\<close>, the logging functions of package
  \<open>system\<close> they call, and the default pricing and timeouts of the contract fixtures.

  The solver, the ledger, the clock and the cancellation context are outside the controller.
  They are taken as a record of functions over a state \<open>'s\<close> of the outside world, so every
  theorem holds for every behaviour of the collaborators; what the controller does to them,
  in order, is recorded in a trace.
\<close>

subsection \<open>Data\<close>

text \<open>A Go \<open>error\<close> value, told apart by its message; \<open>nil\<close> is \<open>None\<close> of \<open>error option\<close>.\<close>

datatype error = Error string

text \<open>
  Pricing and timeouts, with the fields of \<open>SharedStructs.DealPricingStruct\<close>,
  \<open>DealTimeoutStruct\<close> and \<open>DealTimeoutsStruct\<close> that the fixtures fill in.
\<close>

record DealPricing =
  instructionPrice :: int
  paymentCollateral :: int
  resultsCollateralMultiple :: int
  mediationFee :: int

record DealTimeout =
  timeout :: int
  collateral :: int

record DealTimeouts =
  agree :: DealTimeout
  submitResults :: DealTimeout
  judgeResults :: DealTimeout
  mediateResults :: DealTimeout

definition DEFAUT_TIMEOUT_TIME :: int where
  "DEFAUT_TIMEOUT_TIME = 60 * 60"

definition DEFAUT_TIMEOUT_COLLATERAL :: int where
  "DEFAUT_TIMEOUT_COLLATERAL = 1"

definition DEFAULT_PRICING_INSTRUCTION_PRICE :: int where
  "DEFAULT_PRICING_INSTRUCTION_PRICE = 1"

definition DEFAULT_PRICING_PAYMENT_COLLATERAL :: int where
  "DEFAULT_PRICING_PAYMENT_COLLATERAL = 1"

definition DEFAULT_PRICING_RESULTS_COLLATERAL_MULTIPLE :: int where
  "DEFAULT_PRICING_RESULTS_COLLATERAL_MULTIPLE = 1"

definition DEFAULT_PRICING_MEDIATION_FEE :: int where
  "DEFAULT_PRICING_MEDIATION_FEE = 1"

definition getDefaultTimeouts :: DealTimeouts where
  "getDefaultTimeouts =
     (let defaultTimeout = \<lparr>timeout = DEFAUT_TIMEOUT_TIME, collateral = DEFAUT_TIMEOUT_COLLATERAL\<rparr>;
          defaultTimeoutNoCost = \<lparr>timeout = DEFAUT_TIMEOUT_TIME, collateral = 0\<rparr>
      in \<lparr>agree = defaultTimeoutNoCost,
          submitResults = defaultTimeout,
          judgeResults = defaultTimeout,
          mediateResults = defaultTimeoutNoCost\<rparr>)"

definition getDefaultPricing :: DealPricing where
  "getDefaultPricing =
     \<lparr>instructionPrice = DEFAULT_PRICING_INSTRUCTION_PRICE,
      paymentCollateral = DEFAULT_PRICING_PAYMENT_COLLATERAL,
      resultsCollateralMultiple = DEFAULT_PRICING_RESULTS_COLLATERAL_MULTIPLE,
      mediationFee = DEFAULT_PRICING_MEDIATION_FEE\<rparr>"

text \<open>
  Modelled from the spec: the types of the fields \<open>Modules\<close> ("module allow-list"),
  \<open>Mode\<close> ("operating mode") and \<open>TrustedParties\<close> ("trusted-party allow-list") of
  \<open>data.ResourceOffer\<close>, which package \<open>data\<close> declares; the controller only copies
  these values. The fields are those that \<open>getResourceOffer\<close> fills in. The machine
  specification \<open>data.MachineSpec\<close> is declared in package \<open>data\<close> too and only ever
  copied by the controller: it is the type parameter \<open>'m\<close>.
\<close>

record 'm ResourceOffer =
  CreatedAt :: int
  ResourceProvider :: string
  Index :: int
  Spec :: 'm
  Modules :: "string list"
  Mode :: string
  DefaultPricing :: DealPricing
  DefaultTimeouts :: DealTimeouts
  ModulePricing :: "string \<rightharpoonup> DealPricing"
  ModuleTimeouts :: "string \<rightharpoonup> DealTimeouts"
  TrustedParties :: "string list"

text \<open>
  Modelled from the spec: \<open>data.ResourceOfferContainer\<close>, "the solver's wrapped record of a
  Resource Offer, including a solver-assigned identifier distinct from index". The controller
  reads \<open>ResourceOffer.Index\<close> of it.
\<close>

record 'm ResourceOfferContainer =
  container_ID :: string
  container_ResourceOffer :: "'m ResourceOffer"

text \<open>
  Modelled from the spec: \<open>data.Deal\<close>, of which the controller reads \<open>ResourceProvider\<close>
  ("identifier, resource-provider address, lifecycle state").
\<close>

record Deal =
  deal_ID :: string
  deal_ResourceProvider :: string
  deal_State :: string

text \<open>The queries of package \<open>store\<close>, with the fields the controller sets.\<close>

record GetDealsQuery =
  dq_ResourceProvider :: string
  dq_State :: string

record GetResourceOffersQuery =
  roq_ResourceProvider :: string
  roq_Active :: bool

text \<open>
  Modelled from the spec: \<open>solver.SolverEvent\<close>, "a discriminated event with a kind (e.g.,
  deal-added) and, for deal-related kinds, an attached Deal payload which may be absent". The
  payload is a pointer in the source; \<open>nil\<close> is \<open>None\<close>.
\<close>

datatype SolverEventType = DealAdded | OtherEventType nat

record SolverEvent =
  EventType :: SolverEventType
  EventDeal :: "Deal option"

text \<open>
  \<open>ResourceProviderOptions\<close>: the fields \<open>options.Offers.Specs\<close>, \<open>Modules\<close>, \<open>Mode\<close>,
  \<open>DefaultPricing\<close>, \<open>DefaultTimeouts\<close> and \<open>TrustedParties\<close> that the controller reads.
\<close>

record 'm ResourceProviderOfferOptions =
  opt_Specs :: "'m list"
  opt_Modules :: "string list"
  opt_Mode :: string
  opt_DefaultPricing :: DealPricing
  opt_DefaultTimeouts :: DealTimeouts
  opt_TrustedParties :: "string list"

record 'm ResourceProviderOptions =
  Offers :: "'m ResourceProviderOfferOptions"

subsection \<open>The outside world and the trace\<close>

text \<open>The levels of zerolog that \<open>log.go\<close> uses, and what a log call is given as data.\<close>

datatype Level = ErrorLevel | InfoLevel | DebugLevel | TraceLevel

datatype 'm logdata =
    DataText string
  | DataError error
  | DataDeal Deal
  | DataOffer "'m ResourceOffer"
  | DataEvent SolverEvent

text \<open>Which case of the \<open>select\<close> in the loop fired.\<close>

datatype wake = TimerFired | CtxDone

text \<open>
  What the controller does to the outside, one constructor per kind of call in the source;
  a call to a collaborator is recorded with the answer it got. \<open>AgreeCall\<close> stands for
  \<open>web3SDK.Contracts.Controller.Agree\<close>, which the source names in a comment only.
  \<open>TimeNow\<close> is a reading of the clock, \<open>Select\<close> the case of the \<open>select\<close> that fired,
  \<open>ChanSend\<close> a value delivered on \<open>errorChan\<close>.
\<close>

datatype 'm action =
    Log Level string "'m logdata"
  | SubscribeEvents
  | SubscribeDealStateChange
  | SolverClientStart "error option"
  | Web3EventsStart "error option"
  | GetDealsCall GetDealsQuery "Deal list \<times> error option"
  | GetResourceOffersCall GetResourceOffersQuery "'m ResourceOfferContainer list \<times> error option"
  | AddResourceOfferCall "'m ResourceOffer" "error option"
  | AgreeCall Deal
  | TimeNow "64 word"
  | Select wake
  | ChanSend error

text \<open>
  The collaborators. Each function takes the state of the outside world and returns its
  answer with the new state. A Go function returning \<open>(value, error)\<close> returns both here.
  \<open>solver_AddResourceOffer\<close> returns the error only: the controller discards the other
  result. \<open>time_UnixNano\<close> is \<open>time.Now().UnixNano()\<close>, an \<open>int64\<close>. \<open>ctx_select\<close>
  is the \<open>select\<close> between \<open>time.After(1 * time.Second)\<close> and \<open>ctx.Done()\<close>: the outside
  decides which fires first.
\<close>

record ('m, 's) facades =
  solver_GetDeals :: "GetDealsQuery \<Rightarrow> 's \<Rightarrow> (Deal list \<times> error option) \<times> 's"
  solver_GetResourceOffers ::
    "GetResourceOffersQuery \<Rightarrow> 's \<Rightarrow> ('m ResourceOfferContainer list \<times> error option) \<times> 's"
  solver_AddResourceOffer :: "'m ResourceOffer \<Rightarrow> 's \<Rightarrow> error option \<times> 's"
  solver_Start :: "'s \<Rightarrow> error option \<times> 's"
  web3Events_Start :: "'s \<Rightarrow> error option \<times> 's"
  time_UnixNano :: "'s \<Rightarrow> 64 word \<times> 's"
  ctx_select :: "'s \<Rightarrow> wake \<times> 's"

text \<open>
  \<open>ResourceProviderController\<close>: its collaborators, its options, and \<open>address\<close> for
  \<open>controller.web3SDK.GetAddress().String()\<close>, the provider's own address.
\<close>

record ('m, 's) ResourceProviderController =
  clients :: "('m, 's) facades"
  options :: "'m ResourceProviderOptions"
  address :: string

text \<open>
  The world a function of the controller runs in: the state of the outside, and the trace of
  what the controller has done so far, oldest action first.
\<close>

record ('m, 's) world =
  ext :: 's
  trace :: "'m action list"

definition emit :: "'m action \<Rightarrow> ('m, 's) world \<Rightarrow> ('m, 's) world" where
  "emit a w = w\<lparr>trace := trace w @ [a]\<rparr>"

text \<open>A call to a collaborator: the outside answers, and the call is recorded with the answer.\<close>

definition call ::
  "('r \<Rightarrow> 'm action) \<Rightarrow> ('s \<Rightarrow> 'r \<times> 's) \<Rightarrow> ('m, 's) world \<Rightarrow> 'r \<times> ('m, 's) world" where
  "call a f w = (case f (ext w) of (r, s) \<Rightarrow> (r, \<lparr>ext = s, trace = trace w @ [a r]\<rparr>))"

subsection \<open>Logging (\<open>pkg/system/log.go\<close>)\<close>

text \<open>
  A log call writes one entry: level, title and data. The service is
  \<open>system.ResourceProviderService\<close> at every call of the controller and is left out.
  \<open>Error_log\<close> is the function \<open>Error\<close> of \<open>log.go\<close>.
\<close>

definition logWithCaller :: "Level \<Rightarrow> string \<Rightarrow> 'm logdata \<Rightarrow> ('m, 's) world \<Rightarrow> ('m, 's) world" where
  "logWithCaller level title d w = emit (Log level title d) w"

definition Error_log :: "string \<Rightarrow> error \<Rightarrow> ('m, 's) world \<Rightarrow> ('m, 's) world" where
  "Error_log title err w = logWithCaller ErrorLevel title (DataError err) w"

definition Info :: "string \<Rightarrow> 'm logdata \<Rightarrow> ('m, 's) world \<Rightarrow> ('m, 's) world" where
  "Info title d w = logWithCaller InfoLevel title d w"

definition Debug :: "string \<Rightarrow> 'm logdata \<Rightarrow> ('m, 's) world \<Rightarrow> ('m, 's) world" where
  "Debug title d w = logWithCaller DebugLevel title d w"

definition Trace :: "string \<Rightarrow> 'm logdata \<Rightarrow> ('m, 's) world \<Rightarrow> ('m, 's) world" where
  "Trace title d w = logWithCaller TraceLevel title d w"

subsection \<open>Setup\<close>

text \<open>
  Modelled from the spec: \<open>solver.ServiceLogSolverEvent\<close>, which package \<open>solver\<close>
  declares: "on receipt, logs the event unconditionally". The spec gives neither level nor
  title of the entry; \<open>InfoLevel\<close> and the title of the error entry stand for them.
\<close>

definition ServiceLogSolverEvent :: "SolverEvent \<Rightarrow> ('m, 's) world \<Rightarrow> ('m, 's) world" where
  "ServiceLogSolverEvent ev w = Info ''solver event'' (DataEvent ev) w"

text \<open>
  The callback that \<open>subscribeToSolver\<close> registers, and the two registrations. Both
  subscribe functions return \<open>nil\<close> in every case.
\<close>

definition solverEventHandler ::
  "('m, 's) ResourceProviderController \<Rightarrow> SolverEvent \<Rightarrow> ('m, 's) world \<Rightarrow> ('m, 's) world" where
  "solverEventHandler controller ev w =
     (let w1 = ServiceLogSolverEvent ev w
      in if EventType ev = DealAdded then
           (case EventDeal ev of
              None \<Rightarrow> Error_log ''solver event'' (Error ''RP received nil deal'') w1
            | Some deal \<Rightarrow>
                if deal_ResourceProvider deal \<noteq> address controller then w1 else w1)
         else w1)"

definition subscribeToSolver ::
  "('m, 's) ResourceProviderController \<Rightarrow> ('m, 's) world \<Rightarrow> error option \<times> ('m, 's) world" where
  "subscribeToSolver controller w = (None, emit SubscribeEvents w)"

definition subscribeToWeb3 ::
  "('m, 's) ResourceProviderController \<Rightarrow> ('m, 's) world \<Rightarrow> error option \<times> ('m, 's) world" where
  "subscribeToWeb3 controller w = (None, emit SubscribeDealStateChange w)"

subsection \<open>Agree to deals\<close>

text \<open>The \<open>range\<close> loop over the negotiating deals: its body logs the deal and nothing else.\<close>

fun agreeToDeals_range :: "Deal list \<Rightarrow> ('m, 's) world \<Rightarrow> ('m, 's) world" where
  "agreeToDeals_range [] w = w"
| "agreeToDeals_range (deal # deals) w =
     agreeToDeals_range deals (Info ''agree to deal'' (DataDeal deal) w)"

definition agreeToDeals ::
  "('m, 's) ResourceProviderController \<Rightarrow> ('m, 's) world \<Rightarrow> error option \<times> ('m, 's) world" where
  "agreeToDeals controller w =
     (let q = \<lparr>dq_ResourceProvider = address controller, dq_State = ''DealNegotiating''\<rparr>
      in case call (GetDealsCall q) (solver_GetDeals (clients controller) q) w of
           ((negotiatingDeals, err), w1) \<Rightarrow>
             if err \<noteq> None then (err, w1)
             else if int (length negotiatingDeals) \<le> 0 then (None, w1)
             else (err, agreeToDeals_range negotiatingDeals w1))"

subsection \<open>Ensure resource offers\<close>

text \<open>
  \<open>CreatedAt\<close> is \<open>int(time.Now().UnixNano() / int64(time.Millisecond))\<close>: Go's division
  of signed integers truncates towards zero (\<open>sdiv\<close>), and \<open>time.Millisecond\<close> is
  \<open>1000000\<close> nanoseconds. \<open>int\<close> has 64 bits on the platforms the program is built for.
\<close>

definition getResourceOffer ::
  "('m, 's) ResourceProviderController \<Rightarrow> int \<Rightarrow> 'm \<Rightarrow> ('m, 's) world
     \<Rightarrow> 'm ResourceOffer \<times> ('m, 's) world" where
  "getResourceOffer controller index spec w =
     (case call TimeNow (time_UnixNano (clients controller)) w of
        (now, w1) \<Rightarrow>
          (\<lparr>CreatedAt = sint now sdiv 1000000,
            ResourceProvider = address controller,
            Index = index,
            Spec = spec,
            Modules = opt_Modules (Offers (options controller)),
            Mode = opt_Mode (Offers (options controller)),
            DefaultPricing = opt_DefaultPricing (Offers (options controller)),
            DefaultTimeouts = opt_DefaultTimeouts (Offers (options controller)),
            ModulePricing = Map.empty,
            ModuleTimeouts = Map.empty,
            TrustedParties = opt_TrustedParties (Offers (options controller))\<rparr>,
           w1))"

text \<open>The first loop: the map from index to the active offer that has it.\<close>

fun existingResourceOffersMap ::
  "'m ResourceOfferContainer list \<Rightarrow> (int \<rightharpoonup> 'm ResourceOfferContainer)
     \<Rightarrow> (int \<rightharpoonup> 'm ResourceOfferContainer)" where
  "existingResourceOffersMap [] m = m"
| "existingResourceOffersMap (existingResourceOffer # rest) m =
     existingResourceOffersMap rest
       (m(Index (container_ResourceOffer existingResourceOffer) \<mapsto> existingResourceOffer))"

text \<open>
  The second loop, over \<open>options.Offers.Specs\<close> from position \<open>index\<close> on: an offer is
  built and appended for every position the map has no entry for.
\<close>

fun addResourceOffers ::
  "('m, 's) ResourceProviderController \<Rightarrow> (int \<rightharpoonup> 'm ResourceOfferContainer) \<Rightarrow> nat \<Rightarrow> 'm list
     \<Rightarrow> 'm ResourceOffer list \<Rightarrow> ('m, 's) world \<Rightarrow> 'm ResourceOffer list \<times> ('m, 's) world" where
  "addResourceOffers controller m index [] acc w = (acc, w)"
| "addResourceOffers controller m index (spec # specs) acc w =
     (case m (int index) of
        None \<Rightarrow>
          (case getResourceOffer controller (int index) spec w of
             (offer, w1) \<Rightarrow> addResourceOffers controller m (Suc index) specs (acc @ [offer]) w1)
      | Some _ \<Rightarrow> addResourceOffers controller m (Suc index) specs acc w)"

text \<open>The third loop: log and submit each offer, return at the first error.\<close>

fun submitResourceOffers ::
  "('m, 's) ResourceProviderController \<Rightarrow> 'm ResourceOffer list \<Rightarrow> ('m, 's) world
     \<Rightarrow> error option \<times> ('m, 's) world" where
  "submitResourceOffers controller [] w = (None, w)"
| "submitResourceOffers controller (resourceOffer # rest) w =
     (case call (AddResourceOfferCall resourceOffer)
             (solver_AddResourceOffer (clients controller) resourceOffer)
             (Info ''add resource offer'' (DataOffer resourceOffer) w) of
        (err, w1) \<Rightarrow>
          if err \<noteq> None then (err, w1) else submitResourceOffers controller rest w1)"

text \<open>
  The \<open>err\<close> of the third loop is a new variable of the loop body, so the last
  \<open>return err\<close> returns the error of the query, which is \<open>nil\<close> there.
\<close>

definition ensureResourceOffers ::
  "('m, 's) ResourceProviderController \<Rightarrow> ('m, 's) world \<Rightarrow> error option \<times> ('m, 's) world" where
  "ensureResourceOffers controller w =
     (let q = \<lparr>roq_ResourceProvider = address controller, roq_Active = True\<rparr>
      in case call (GetResourceOffersCall q) (solver_GetResourceOffers (clients controller) q) w of
           ((activeResourceOffers, err), w1) \<Rightarrow>
             if err \<noteq> None then (err, w1)
             else
               (case addResourceOffers controller
                       (existingResourceOffersMap activeResourceOffers Map.empty)
                       0 (opt_Specs (Offers (options controller))) [] w1 of
                  (offers, w2) \<Rightarrow>
                    (case submitResourceOffers controller offers w2 of
                       (Some e, w3) \<Rightarrow> (Some e, w3)
                     | (None, w3) \<Rightarrow> (err, w3))))"

subsection \<open>Solve\<close>

definition solve ::
  "('m, 's) ResourceProviderController \<Rightarrow> ('m, 's) world \<Rightarrow> error option \<times> ('m, 's) world" where
  "solve controller w =
     (case agreeToDeals controller (Debug ''solving'' (DataText []) w) of
        (err, w1) \<Rightarrow>
          if err \<noteq> None then (err, w1)
          else
            (case ensureResourceOffers controller w1 of
               (err2, w2) \<Rightarrow> if err2 \<noteq> None then (err2, w2) else (None, w2)))"

subsection \<open>Start\<close>

text \<open>
  \<open>errorChan\<close> is made by \<open>make(chan error)\<close>: it has no buffer, so a send on it completes
  only when another goroutine receives. \<open>chanSend receiver err\<close> is the statement
  \<open>errorChan <- err\<close>, where \<open>receiver\<close> tells whether another goroutine holds the channel:
  with one, the value is delivered; with none, the sending goroutine blocks for ever.
\<close>

datatype 'w outcome = Returns 'w | Blocks 'w

fun world_of :: "'w outcome \<Rightarrow> 'w" where
  "world_of (Returns w) = w"
| "world_of (Blocks w) = w"

definition chanSend :: "bool \<Rightarrow> error \<Rightarrow> ('m, 's) world \<Rightarrow> ('m, 's) world outcome" where
  "chanSend receiver err w = (if receiver then Returns (emit (ChanSend err) w) else Blocks w)"

text \<open>
  The \<open>select\<close> at the end of a cycle: it waits for the timer of one second or for the
  cancellation of the context, whichever the outside lets happen first.
\<close>

definition selectWake ::
  "('m, 's) ResourceProviderController \<Rightarrow> ('m, 's) world \<Rightarrow> wake \<times> ('m, 's) world" where
  "selectWake controller w =
     call Select (ctx_select (clients controller)) w"

text \<open>
  The goroutine of \<open>Start\<close>: the \<open>for\<close> loop, with one unit of fuel for each cycle. \<open>None\<close>
  is a loop that is still running when the fuel is used up. The goroutine runs once \<open>Start\<close>
  has handed \<open>errorChan\<close> to its caller, who is the receiver ("caller must keep reading the
  returned channel").
\<close>

fun Start_loop ::
  "nat \<Rightarrow> ('m, 's) ResourceProviderController \<Rightarrow> ('m, 's) world \<Rightarrow> ('m, 's) world outcome option" where
  "Start_loop 0 controller w = None"
| "Start_loop (Suc fuel) controller w =
     (case solve controller w of
        (Some err, w1) \<Rightarrow> Some (chanSend True err (Error_log ''error solving'' err w1))
      | (None, w1) \<Rightarrow>
          (case selectWake controller w1 of
             (TimerFired, w2) \<Rightarrow> Start_loop fuel controller w2
           | (CtxDone, w2) \<Rightarrow> Some (Returns w2)))"

text \<open>
  The part of \<open>Start\<close> before the goroutine, run by the caller. At each of its four sends
  \<open>errorChan\<close> has just been made and is known to this call only: there is no receiver.
  \<open>Returns\<close> is the \<open>return errorChan\<close> of the last line, after the \<open>go\<close> statement.
\<close>

definition Start_setup ::
  "('m, 's) ResourceProviderController \<Rightarrow> ('m, 's) world \<Rightarrow> ('m, 's) world outcome" where
  "Start_setup controller w =
     (case subscribeToSolver controller w of
        (Some err, w1) \<Rightarrow> chanSend False err w1
      | (None, w1) \<Rightarrow>
     (case subscribeToWeb3 controller w1 of
        (Some err, w2) \<Rightarrow> chanSend False err w2
      | (None, w2) \<Rightarrow>
     (case call SolverClientStart (solver_Start (clients controller)) w2 of
        (Some err, w3) \<Rightarrow> chanSend False err w3
      | (None, w3) \<Rightarrow>
     (case call Web3EventsStart (web3Events_Start (clients controller)) w3 of
        (Some err, w4) \<Rightarrow> chanSend False err w4
      | (None, w4) \<Rightarrow> Returns w4))))"

text \<open>
  A call of \<open>Start\<close> with the goroutine it starts: the goroutine exists only when the setup
  has reached the \<open>go\<close> statement.
\<close>

definition Start ::
  "nat \<Rightarrow> ('m, 's) ResourceProviderController \<Rightarrow> ('m, 's) world \<Rightarrow> ('m, 's) world outcome option" where
  "Start fuel controller w =
     (case Start_setup controller w of
        Blocks w1 \<Rightarrow> Some (Blocks w1)
      | Returns w1 \<Rightarrow> Start_loop fuel controller w1)"

text \<open>
  The world the goroutine has reached when the fuel is used up or the loop has returned,
  whichever comes first: the same loop, read for what it has done so far. It is defined for
  every run, also for one that never ends.
\<close>

fun Start_loop_reached ::
  "nat \<Rightarrow> ('m, 's) ResourceProviderController \<Rightarrow> ('m, 's) world \<Rightarrow> ('m, 's) world" where
  "Start_loop_reached 0 controller w = w"
| "Start_loop_reached (Suc fuel) controller w =
     (case solve controller w of
        (Some err, w1) \<Rightarrow> world_of (chanSend True err (Error_log ''error solving'' err w1))
      | (None, w1) \<Rightarrow>
          (case selectWake controller w1 of
             (TimerFired, w2) \<Rightarrow> Start_loop_reached fuel controller w2
           | (CtxDone, w2) \<Rightarrow> w2))"

subsection \<open>Reading a trace\<close>

text \<open>The actions of a run: what the trace of \<open>w'\<close> has after the trace of \<open>w\<close>.\<close>

definition since :: "('m, 's) world \<Rightarrow> ('m, 's) world \<Rightarrow> 'm action list" where
  "since w w' = drop (length (trace w)) (trace w')"

text \<open>
  The offers of the add-offer calls of a trace, the errors the solver answered them with, the
  deals of its agree actions, and the values delivered on \<open>errorChan\<close>.
\<close>

fun addCall :: "'m action \<Rightarrow> 'm ResourceOffer list" where
  "addCall (AddResourceOfferCall offer err) = [offer]"
| "addCall _ = []"

definition addCalls :: "'m action list \<Rightarrow> 'm ResourceOffer list" where
  "addCalls t = concat (map addCall t)"

fun addError :: "'m action \<Rightarrow> error list" where
  "addError (AddResourceOfferCall offer (Some err)) = [err]"
| "addError _ = []"

definition addErrors :: "'m action list \<Rightarrow> error list" where
  "addErrors t = concat (map addError t)"

fun agreeCall :: "'m action \<Rightarrow> Deal list" where
  "agreeCall (AgreeCall deal) = [deal]"
| "agreeCall _ = []"

definition agreeCalls :: "'m action list \<Rightarrow> Deal list" where
  "agreeCalls t = concat (map agreeCall t)"

fun sent :: "'m action \<Rightarrow> error list" where
  "sent (ChanSend err) = [err]"
| "sent _ = []"

definition errorChan :: "'m action list \<Rightarrow> error list" where
  "errorChan t = concat (map sent t)"

fun isLog :: "'m action \<Rightarrow> bool" where
  "isLog (Log level title d) = True"
| "isLog _ = False"

fun isTimeNow :: "'m action \<Rightarrow> bool" where
  "isTimeNow (TimeNow now) = True"
| "isTimeNow _ = False"

text \<open>
  The missing set in the words of the spec: "configured indices not in the covered set",
  where an index is a position in the catalogue and the covered set holds the indices of
  the active offers of the snapshot.
\<close>

definition coveredIndices :: "'m ResourceOfferContainer list \<Rightarrow> int set" where
  "coveredIndices snapshot = set (map (\<lambda>x. Index (container_ResourceOffer x)) snapshot)"

definition missingIndices :: "'m list \<Rightarrow> 'm ResourceOfferContainer list \<Rightarrow> int list" where
  "missingIndices specs snapshot =
     map int (filter (\<lambda>i. int i \<notin> coveredIndices snapshot) [0..<length specs])"

text \<open>
  The actions of a reconciliation cycle: log entries, readings of the clock and calls to the
  solver.
\<close>

fun cycleAction :: "'m action \<Rightarrow> bool" where
  "cycleAction (Log level title d) = True"
| "cycleAction (GetDealsCall q x) = True"
| "cycleAction (GetResourceOffersCall q x) = True"
| "cycleAction (AddResourceOfferCall offer err) = True"
| "cycleAction (TimeNow now) = True"
| "cycleAction _ = False"

definition dealsQuery :: "('m, 's) ResourceProviderController \<Rightarrow> GetDealsQuery" where
  "dealsQuery controller =
     \<lparr>dq_ResourceProvider = address controller, dq_State = ''DealNegotiating''\<rparr>"

definition offersQuery :: "('m, 's) ResourceProviderController \<Rightarrow> GetResourceOffersQuery" where
  "offersQuery controller = \<lparr>roq_ResourceProvider = address controller, roq_Active = True\<rparr>"

text \<open>
  The offer in the words of the spec, for a catalogue position, its entry and a reading of
  the clock in nanoseconds: "index = catalogue position, spec = catalogue entry, createdAt =
  current time in milliseconds, provider = self address, modules/mode/defaultPricing/
  defaultTimeouts/trustedParties copied from configuration, per-module pricing/timeout
  overrides initialized empty".
\<close>

definition builtFor ::
  "('m, 's) ResourceProviderController \<Rightarrow> int \<Rightarrow> 'm \<Rightarrow> 64 word \<Rightarrow> 'm ResourceOffer" where
  "builtFor controller index spec now =
     \<lparr>CreatedAt = sint now sdiv 1000000,
      ResourceProvider = address controller,
      Index = index,
      Spec = spec,
      Modules = opt_Modules (Offers (options controller)),
      Mode = opt_Mode (Offers (options controller)),
      DefaultPricing = opt_DefaultPricing (Offers (options controller)),
      DefaultTimeouts = opt_DefaultTimeouts (Offers (options controller)),
      ModulePricing = Map.empty,
      ModuleTimeouts = Map.empty,
      TrustedParties = opt_TrustedParties (Offers (options controller))\<rparr>"

text \<open>The offers for the missing indices of a snapshot, one reading of the clock for each.\<close>

definition newOffers ::
  "('m, 's) ResourceProviderController \<Rightarrow> 'm ResourceOfferContainer list \<Rightarrow> 64 word list
     \<Rightarrow> 'm ResourceOffer list" where
  "newOffers controller snapshot nows =
     map (\<lambda>(i, now). builtFor controller i (opt_Specs (Offers (options controller)) ! nat i) now)
       (zip (missingIndices (opt_Specs (Offers (options controller))) snapshot) nows)"

text \<open>The positions from \<open>k\<close> on, \<open>n\<close> of them, that a map of offers has no entry for.\<close>

definition missingFrom :: "(int \<rightharpoonup> 'a) \<Rightarrow> nat \<Rightarrow> nat \<Rightarrow> nat list" where
  "missingFrom m k n = filter (\<lambda>i. m (int i) = None) [k..<k + n]"

text \<open>The actions of submitting offers, each with the answer of the solver.\<close>

definition submitActions :: "('m ResourceOffer \<times> error option) list \<Rightarrow> 'm action list" where
  "submitActions xs =
     concat (map (\<lambda>(offer, err). [Log InfoLevel ''add resource offer'' (DataOffer offer),
                                   AddResourceOfferCall offer err]) xs)"

definition accepted :: "'m ResourceOffer list \<Rightarrow> ('m ResourceOffer \<times> error option) list" where
  "accepted offers = map (\<lambda>offer. (offer, None)) offers"

subsection \<open>Scenarios\<close>

text \<open>
  A provider with the catalogue of two machine specifications of the spec's scenarios, and
  collaborators that answer every call without error: no deals, no active offers, a fixed
  clock, and a context that is cancelled during the second sleep. The state of this outside
  world counts the sleeps.
\<close>

definition quiet :: "(string, nat) facades" where
  "quiet =
     \<lparr>solver_GetDeals = (\<lambda>q s. (([], None), s)),
      solver_GetResourceOffers = (\<lambda>q s. (([], None), s)),
      solver_AddResourceOffer = (\<lambda>offer s. (None, s)),
      solver_Start = (\<lambda>s. (None, s)),
      web3Events_Start = (\<lambda>s. (None, s)),
      time_UnixNano = (\<lambda>s. (1700000000123456789, s)),
      ctx_select = (\<lambda>s. (if s < 1 then TimerFired else CtxDone, Suc s))\<rparr>"

definition provider :: "(string, nat) ResourceProviderController" where
  "provider =
     \<lparr>clients = quiet,
      options = \<lparr>Offers =
        \<lparr>opt_Specs = [''specA'', ''specB''],
         opt_Modules = [''cowsay''],
         opt_Mode = ''ModeDefault'',
         opt_DefaultPricing = getDefaultPricing,
         opt_DefaultTimeouts = getDefaultTimeouts,
         opt_TrustedParties = [''0xMediator'']\<rparr>\<rparr>,
      address = ''0xRP''\<rparr>"

definition world0 :: "(string, nat) world" where
  "world0 = \<lparr>ext = 0, trace = []\<rparr>"

definition dealForUs :: Deal where
  "dealForUs = \<lparr>deal_ID = ''deal1'', deal_ResourceProvider = ''0xRP'', deal_State = ''DealNegotiating''\<rparr>"

definition dealForOther :: Deal where
  "dealForOther = \<lparr>deal_ID = ''deal2'', deal_ResourceProvider = ''0xOther'', deal_State = ''DealNegotiating''\<rparr>"

text \<open>
  The same provider with a catalogue of three, facing a solver that rejects the offer with
  index 1; facing a solver that already has an active offer with index 0 (scenario B of the
  spec); facing a solver whose query of the active offers fails (scenario D).
\<close>

definition rejecting :: "(string, nat) ResourceProviderController" where
  "rejecting =
     \<lparr>clients = quiet\<lparr>solver_AddResourceOffer :=
         (\<lambda>offer s. (if Index offer = 1 then Some (Error ''offer rejected'') else None, s))\<rparr>,
      options = \<lparr>Offers = (Offers (options provider))\<lparr>opt_Specs := [''specA'', ''specB'', ''specC'']\<rparr>\<rparr>,
      address = ''0xRP''\<rparr>"

definition oneActive :: "(string, nat) ResourceProviderController" where
  "oneActive =
     provider\<lparr>clients := quiet\<lparr>solver_GetResourceOffers :=
       (\<lambda>q s. (([\<lparr>container_ID = ''offer0'',
                   container_ResourceOffer = builtFor provider 0 ''specA'' 1600000000000000000\<rparr>],
                 None), s))\<rparr>\<rparr>"

definition unreachable :: "(string, nat) ResourceProviderController" where
  "unreachable =
     provider\<lparr>clients := quiet\<lparr>solver_GetResourceOffers :=
       (\<lambda>q s. (([], Some (Error ''solver unreachable'')), s))\<rparr>\<rparr>"

text \<open>
  The provider facing a solver that has one negotiating deal for it (scenario C of the
  spec); a solver client that fails to start; a solver whose query of the deals fails; a
  solver whose query of the active offers fails from the first sleep on.
\<close>

definition negotiating :: "(string, nat) ResourceProviderController" where
  "negotiating =
     provider\<lparr>clients := quiet\<lparr>solver_GetDeals := (\<lambda>q s. (([dealForUs], None), s))\<rparr>\<rparr>"

definition solverDown :: "(string, nat) ResourceProviderController" where
  "solverDown =
     provider\<lparr>clients := quiet\<lparr>solver_Start := (\<lambda>s. (Some (Error ''solver client failed''), s))\<rparr>\<rparr>"

definition dealsDown :: "(string, nat) ResourceProviderController" where
  "dealsDown =
     provider\<lparr>clients := quiet\<lparr>solver_GetDeals :=
       (\<lambda>q s. (([], Some (Error ''deals query failed'')), s))\<rparr>\<rparr>"

definition flaky :: "(string, nat) ResourceProviderController" where
  "flaky =
     provider\<lparr>clients := quiet\<lparr>solver_GetResourceOffers :=
       (\<lambda>q s. (([], if s < 1 then None else Some (Error ''solver unreachable'')), s))\<rparr>\<rparr>"

text \<open>
  The provider with a context that is never cancelled; with a context that is cancelled from
  the start, so that every \<open>select\<close> sees the cancellation; and with such a context and a
  solver whose query of the deals fails.
\<close>

definition steady :: "(string, nat) ResourceProviderController" where
  "steady = provider\<lparr>clients := quiet\<lparr>ctx_select := (\<lambda>s. (TimerFired, Suc s))\<rparr>\<rparr>"

definition cancelled :: "(string, nat) ResourceProviderController" where
  "cancelled = provider\<lparr>clients := quiet\<lparr>ctx_select := (\<lambda>s. (CtxDone, s))\<rparr>\<rparr>"

definition cancelledDown :: "(string, nat) ResourceProviderController" where
  "cancelledDown =
     provider\<lparr>clients := quiet\<lparr>solver_GetDeals :=
                                 (\<lambda>q s. (([], Some (Error ''deals query failed'')), s)),
                               ctx_select := (\<lambda>s. (CtxDone, s))\<rparr>\<rparr>"

text \<open>
  The actions of the setup, of a cycle that finds no deal and no active offer and adds both
  offers of the catalogue, and of a cycle whose query of the active offers fails.
\<close>

definition setupActions :: "string action list" where
  "setupActions =
     [SubscribeEvents, SubscribeDealStateChange, SolverClientStart None, Web3EventsStart None]"

definition cycleOfProvider :: "(string, nat) ResourceProviderController \<Rightarrow> string action list" where
  "cycleOfProvider controller =
     [Log DebugLevel ''solving'' (DataText []),
      GetDealsCall \<lparr>dq_ResourceProvider = ''0xRP'', dq_State = ''DealNegotiating''\<rparr> ([], None),
      GetResourceOffersCall \<lparr>roq_ResourceProvider = ''0xRP'', roq_Active = True\<rparr> ([], None),
      TimeNow 1700000000123456789, TimeNow 1700000000123456789,
      Log InfoLevel ''add resource offer''
        (DataOffer (builtFor controller 0 ''specA'' 1700000000123456789)),
      AddResourceOfferCall (builtFor controller 0 ''specA'' 1700000000123456789) None,
      Log InfoLevel ''add resource offer''
        (DataOffer (builtFor controller 1 ''specB'' 1700000000123456789)),
      AddResourceOfferCall (builtFor controller 1 ''specB'' 1700000000123456789) None]"

definition failedCycle :: "string action list" where
  "failedCycle =
     [Log DebugLevel ''solving'' (DataText []),
      GetDealsCall \<lparr>dq_ResourceProvider = ''0xRP'', dq_State = ''DealNegotiating''\<rparr> ([], None),
      GetResourceOffersCall \<lparr>roq_ResourceProvider = ''0xRP'', roq_Active = True\<rparr>
        ([], Some (Error ''solver unreachable''))]"

section \<open>Properties\<close>

subsection \<open>Traces of the basic steps\<close>

lemma call_world:
  "call a f w = (fst (f (ext w)), \<lparr>ext = snd (f (ext w)), trace = trace w @ [a (fst (f (ext w)))]\<rparr>)"
  by (simp add: call_def split: prod.split)

lemma trace_log:
  "trace (Info title d w) = trace w @ [Log InfoLevel title d]"
  "trace (Debug title d w) = trace w @ [Log DebugLevel title d]"
  "trace (Error_log title err w) = trace w @ [Log ErrorLevel title (DataError err)]"
  by (simp_all add: Info_def Debug_def Error_log_def logWithCaller_def emit_def)

lemma ext_log:
  "ext (Info title d w) = ext w"
  "ext (Debug title d w) = ext w"
  "ext (Error_log title err w) = ext w"
  by (simp_all add: Info_def Debug_def Error_log_def logWithCaller_def emit_def)

subsection \<open>The handler of solver events\<close>

text \<open>
  C8. For every solver event, the handler that \<open>subscribeToSolver\<close> registers returns,
  leaves the outside world as it was, and does nothing but log. For a deal-added event with
  no deal it logs the event, then the error "RP received nil deal", and that is all; for a
  deal-added event whose deal names another resource provider it logs the event and that is
  all. It returns no error to anyone: its result is the world alone.
\<close>

theorem solverEventHandler_only_logs:
  "ext (solverEventHandler controller ev w) = ext w
   \<and> list_all isLog (since w (solverEventHandler controller ev w))
   \<and> (EventType ev = DealAdded \<and> EventDeal ev = None \<longrightarrow>
        since w (solverEventHandler controller ev w) =
          since w (ServiceLogSolverEvent ev w)
          @ [Log ErrorLevel ''solver event'' (DataError (Error ''RP received nil deal''))])
   \<and> (\<forall>deal. EventType ev = DealAdded \<and> EventDeal ev = Some deal
          \<and> deal_ResourceProvider deal \<noteq> address controller \<longrightarrow>
        solverEventHandler controller ev w = ServiceLogSolverEvent ev w)"
  by (auto simp add: solverEventHandler_def ServiceLogSolverEvent_def Let_def since_def
        trace_log ext_log split: option.split)

theorem solverEventHandler_only_logs_witness:
  "since world0 (solverEventHandler provider \<lparr>EventType = DealAdded, EventDeal = None\<rparr> world0) =
     since world0 (ServiceLogSolverEvent \<lparr>EventType = DealAdded, EventDeal = None\<rparr> world0)
     @ [Log ErrorLevel ''solver event'' (DataError (Error ''RP received nil deal''))]
   \<and> solverEventHandler provider \<lparr>EventType = DealAdded, EventDeal = Some dealForOther\<rparr> world0
       = ServiceLogSolverEvent \<lparr>EventType = DealAdded, EventDeal = Some dealForOther\<rparr> world0
   \<and> list_all isLog
       (since world0
          (solverEventHandler provider \<lparr>EventType = DealAdded, EventDeal = Some dealForOther\<rparr> world0))"
proof -
  note nil = solverEventHandler_only_logs
               [of provider "\<lparr>EventType = DealAdded, EventDeal = None\<rparr>" world0]
  note other = solverEventHandler_only_logs
               [of provider "\<lparr>EventType = DealAdded, EventDeal = Some dealForOther\<rparr>" world0]
  have d: "deal_ResourceProvider dealForOther \<noteq> address provider"
    by (simp add: provider_def dealForOther_def)
  from nil have
    "since world0 (solverEventHandler provider \<lparr>EventType = DealAdded, EventDeal = None\<rparr> world0) =
       since world0 (ServiceLogSolverEvent \<lparr>EventType = DealAdded, EventDeal = None\<rparr> world0)
       @ [Log ErrorLevel ''solver event'' (DataError (Error ''RP received nil deal''))]"
    by simp
  moreover from other d have
    "solverEventHandler provider \<lparr>EventType = DealAdded, EventDeal = Some dealForOther\<rparr> world0
       = ServiceLogSolverEvent \<lparr>EventType = DealAdded, EventDeal = Some dealForOther\<rparr> world0"
    by simp
  moreover from other have
    "list_all isLog
       (since world0
          (solverEventHandler provider \<lparr>EventType = DealAdded, EventDeal = Some dealForOther\<rparr> world0))"
    by (rule conjunct2 [THEN conjunct1])
  ultimately show ?thesis by simp
qed

subsection \<open>The loops of \<open>ensureResourceOffers\<close>\<close>

lemma getResourceOffer_world:
  "getResourceOffer controller index spec w =
     (builtFor controller index spec (fst (time_UnixNano (clients controller) (ext w))),
      \<lparr>ext = snd (time_UnixNano (clients controller) (ext w)),
       trace = trace w @ [TimeNow (fst (time_UnixNano (clients controller) (ext w)))]\<rparr>)"
  by (simp add: getResourceOffer_def builtFor_def call_world)

lemma dom_existingResourceOffersMap:
  "dom (existingResourceOffersMap xs m) = dom m \<union> coveredIndices xs"
  by (induction xs arbitrary: m) (auto simp add: coveredIndices_def)

lemma existingResourceOffersMap_None:
  "existingResourceOffersMap xs Map.empty i = None \<longleftrightarrow> i \<notin> coveredIndices xs"
proof -
  have "i \<notin> dom (existingResourceOffersMap xs Map.empty) \<longleftrightarrow> i \<notin> coveredIndices xs"
    by (simp add: dom_existingResourceOffersMap)
  then show ?thesis by (simp add: domIff)
qed

lemma missingFrom_0: "missingFrom m k 0 = []"
  by (simp add: missingFrom_def)

lemma missingFrom_Suc:
  "missingFrom m k (Suc n) = (if m (int k) = None then [k] else []) @ missingFrom m (Suc k) n"
proof -
  have "[k..<k + Suc n] = k # [Suc k..<Suc k + n]"
    by (simp add: upt_conv_Cons del: upt_Suc)
  then show ?thesis by (simp add: missingFrom_def del: upt_Suc)
qed

lemma missingFrom_ge: "i \<in> set (missingFrom m k n) \<Longrightarrow> k \<le> i"
  by (simp add: missingFrom_def)

lemma missingFrom_existing:
  "map int (missingFrom (existingResourceOffersMap snapshot Map.empty) 0 (length specs))
     = missingIndices specs snapshot"
  by (simp add: missingFrom_def missingIndices_def existingResourceOffersMap_None)

lemma addResourceOffers_world:
  "addResourceOffers controller m k specs acc w = (offers, w') \<Longrightarrow>
     \<exists>nows. length nows = length (missingFrom m k (length specs))
       \<and> trace w' = trace w @ map TimeNow nows
       \<and> offers = acc @ map (\<lambda>(i, now). builtFor controller (int i) (specs ! (i - k)) now)
                  (zip (missingFrom m k (length specs)) nows)"
proof (induction specs arbitrary: k acc w)
  case Nil
  then show ?case by (simp add: missingFrom_0)
next
  case (Cons spec specs)
  let ?rest = "missingFrom m (Suc k) (length specs)"
  have shift: "map (\<lambda>(i, now). builtFor controller (int i) (specs ! (i - Suc k)) now) (zip ?rest nows)
      = map (\<lambda>(i, now). builtFor controller (int i) ((spec # specs) ! (i - k)) now) (zip ?rest nows)"
    for nows
    by (rule map_cong [OF refl])
       (auto dest!: set_zip_leftD missingFrom_ge simp add: Suc_diff_le)
  show ?case
  proof (cases "m (int k)")
    case None
    let ?now = "fst (time_UnixNano (clients controller) (ext w))"
    let ?w1 = "\<lparr>ext = snd (time_UnixNano (clients controller) (ext w)),
                trace = trace w @ [TimeNow ?now]\<rparr>"
    from Cons.prems None
    have rec: "addResourceOffers controller m (Suc k) specs
                 (acc @ [builtFor controller (int k) spec ?now]) ?w1 = (offers, w')"
      by (simp add: getResourceOffer_world)
    from Cons.IH [OF rec] obtain nows where
      n: "length nows = length ?rest"
         "trace w' = trace ?w1 @ map TimeNow nows"
         "offers = (acc @ [builtFor controller (int k) spec ?now])
            @ map (\<lambda>(i, now). builtFor controller (int i) (specs ! (i - Suc k)) now) (zip ?rest nows)"
      by blast
    show ?thesis
      apply (rule exI [of _ "?now # nows"])
      using n None by (simp add: missingFrom_Suc shift)
  next
    case (Some a)
    with Cons.prems
    have rec: "addResourceOffers controller m (Suc k) specs acc w = (offers, w')"
      by simp
    from Cons.IH [OF rec] obtain nows where
      n: "length nows = length ?rest"
         "trace w' = trace w @ map TimeNow nows"
         "offers = acc
            @ map (\<lambda>(i, now). builtFor controller (int i) (specs ! (i - Suc k)) now) (zip ?rest nows)"
      by blast
    show ?thesis
      apply (rule exI [of _ nows])
      using n Some by (simp add: missingFrom_Suc shift)
  qed
qed

lemma submitActions_simps:
  "submitActions [] = []"
  "submitActions ((offer, err) # xs) =
     Log InfoLevel ''add resource offer'' (DataOffer offer) # AddResourceOfferCall offer err
       # submitActions xs"
  "submitActions (xs @ ys) = submitActions xs @ submitActions ys"
  by (simp_all add: submitActions_def)

lemma addCalls_simps:
  "addCalls [] = []"
  "addCalls (a # t) = addCall a @ addCalls t"
  "addCalls (t @ u) = addCalls t @ addCalls u"
  by (simp_all add: addCalls_def)

lemma addCalls_submitActions: "addCalls (submitActions xs) = map fst xs"
  by (induction xs) (auto simp add: submitActions_simps addCalls_simps)

lemma addCalls_TimeNow: "addCalls (map TimeNow nows) = []"
  by (induction nows) (simp_all add: addCalls_simps)

text \<open>
  The third loop either submits every offer with success, or stops at the first offer the
  solver answers with an error.
\<close>

lemma submitResourceOffers_world:
  "submitResourceOffers controller offers w = (r, w') \<Longrightarrow>
     (r = None \<and> trace w' = trace w @ submitActions (accepted offers))
     \<or> (\<exists>n e. r = Some e \<and> n < length offers
          \<and> trace w' = trace w @ submitActions (accepted (take n offers) @ [(offers ! n, Some e)]))"
proof (induction offers arbitrary: w)
  case Nil
  then show ?case by (simp add: submitActions_simps accepted_def)
next
  case (Cons offer offers)
  let ?a = "solver_AddResourceOffer (clients controller) offer (ext w)"
  let ?w1 = "\<lparr>ext = snd ?a, trace = trace w @
      [Log InfoLevel ''add resource offer'' (DataOffer offer), AddResourceOfferCall offer (fst ?a)]\<rparr>"
  have c: "call (AddResourceOfferCall offer) (solver_AddResourceOffer (clients controller) offer)
             (Info ''add resource offer'' (DataOffer offer) w) = (fst ?a, ?w1)"
    by (simp add: call_world trace_log ext_log)
  show ?case
  proof (cases "fst ?a")
    case None
    with Cons.prems c have rec: "submitResourceOffers controller offers ?w1 = (r, w')"
      by simp
    from Cons.IH [OF rec] show ?thesis
    proof (elim disjE exE conjE)
      assume "r = None" "trace w' = trace ?w1 @ submitActions (accepted offers)"
      then show ?thesis using None by (simp add: submitActions_simps accepted_def)
    next
      fix n e
      assume "r = Some e" "n < length offers"
        "trace w' = trace ?w1 @ submitActions (accepted (take n offers) @ [(offers ! n, Some e)])"
      then have "r = Some e \<and> Suc n < length (offer # offers)
          \<and> trace w' = trace w @ submitActions
               (accepted (take (Suc n) (offer # offers)) @ [((offer # offers) ! Suc n, Some e)])"
        using None by (simp add: submitActions_simps accepted_def)
      then show ?thesis by blast
    qed
  next
    case (Some e)
    with Cons.prems c have "r = Some e \<and> 0 < length (offer # offers)
          \<and> trace w' = trace w @ submitActions
               (accepted (take 0 (offer # offers)) @ [((offer # offers) ! 0, Some e)])"
      by (auto simp add: submitActions_simps accepted_def)
    then show ?thesis by blast
  qed
qed

lemma length_newOffers:
  "length nows = length (missingIndices (opt_Specs (Offers (options controller))) snapshot) \<Longrightarrow>
   length (newOffers controller snapshot nows) = length nows"
  by (simp add: newOffers_def)

lemma Index_newOffers:
  "length nows = length (missingIndices (opt_Specs (Offers (options controller))) snapshot) \<Longrightarrow>
   map Index (newOffers controller snapshot nows)
     = missingIndices (opt_Specs (Offers (options controller))) snapshot"
proof -
  assume l: "length nows = length (missingIndices (opt_Specs (Offers (options controller))) snapshot)"
  have "map Index (newOffers controller snapshot nows)
      = map fst (zip (missingIndices (opt_Specs (Offers (options controller))) snapshot) nows)"
    by (simp add: newOffers_def builtFor_def case_prod_unfold)
  with l show ?thesis by simp
qed

lemma in_newOffers:
  "offer \<in> set (newOffers controller snapshot nows) \<Longrightarrow>
     \<exists>i now. i \<in> set (missingIndices (opt_Specs (Offers (options controller))) snapshot)
       \<and> now \<in> set nows
       \<and> offer = builtFor controller i (opt_Specs (Offers (options controller)) ! nat i) now"
  by (auto simp add: newOffers_def dest: set_zip_leftD set_zip_rightD)

lemma in_missingIndices:
  "i \<in> set (missingIndices specs snapshot) \<longleftrightarrow>
     0 \<le> i \<and> i < int (length specs) \<and> i \<notin> coveredIndices snapshot"
  by (auto simp add: missingIndices_def image_iff intro: exI [of _ "nat i"])

lemma distinct_missingIndices: "distinct (missingIndices specs snapshot)"
  by (simp add: missingIndices_def distinct_map inj_on_def)

lemma ensureResourceOffers_cases:
  assumes "ensureResourceOffers controller w = (r, w')"
  obtains
    (query_failed) snapshot e where
      "r = Some e"
      "since w w' = [GetResourceOffersCall (offersQuery controller) (snapshot, Some e)]"
  | (all_added) snapshot nows where
      "r = None"
      "length nows = length (missingIndices (opt_Specs (Offers (options controller))) snapshot)"
      "since w w' = GetResourceOffersCall (offersQuery controller) (snapshot, None)
         # map TimeNow nows @ submitActions (accepted (newOffers controller snapshot nows))"
  | (add_failed) snapshot nows n e where
      "r = Some e"
      "length nows = length (missingIndices (opt_Specs (Offers (options controller))) snapshot)"
      "n < length nows"
      "since w w' = GetResourceOffersCall (offersQuery controller) (snapshot, None)
         # map TimeNow nows
         @ submitActions (accepted (take n (newOffers controller snapshot nows))
                           @ [(newOffers controller snapshot nows ! n, Some e)])"
proof -
  let ?q = "offersQuery controller"
  let ?specs = "opt_Specs (Offers (options controller))"
  let ?a = "solver_GetResourceOffers (clients controller) ?q (ext w)"
  let ?snapshot = "fst (fst ?a)"
  let ?w1 = "\<lparr>ext = snd ?a, trace = trace w @ [GetResourceOffersCall ?q (fst ?a)]\<rparr>"
  have c: "call (GetResourceOffersCall ?q) (solver_GetResourceOffers (clients controller) ?q) w
             = (fst ?a, ?w1)"
    by (simp add: call_world)
  have a: "fst ?a = (?snapshot, snd (fst ?a))"
    by simp
  show thesis
  proof (cases "snd (fst ?a)")
    case (Some e)
    have "ensureResourceOffers controller w = (Some e, ?w1)"
      using Some c
      unfolding ensureResourceOffers_def Let_def offersQuery_def [symmetric]
      by (simp add: case_prod_unfold)
    with assms have "r = Some e" "w' = ?w1" by simp_all
    moreover have "fst ?a = (?snapshot, Some e)"
      using Some a by simp
    ultimately show thesis
      using query_failed [where e = e and snapshot = ?snapshot] by (simp add: since_def)
  next
    case None
    let ?m = "existingResourceOffersMap ?snapshot Map.empty"
    obtain offers w2 where b: "addResourceOffers controller ?m 0 ?specs [] ?w1 = (offers, w2)"
      by (cases "addResourceOffers controller ?m 0 ?specs [] ?w1")
    obtain r3 w3 where s: "submitResourceOffers controller offers w2 = (r3, w3)"
      by (cases "submitResourceOffers controller offers w2")
    have e: "ensureResourceOffers controller w = (r3, w3)"
      using None c b s
      unfolding ensureResourceOffers_def Let_def offersQuery_def [symmetric]
      by (cases r3) (simp_all add: case_prod_unfold)
    with assms have rw: "r = r3" "w' = w3" by simp_all
    have qa: "fst ?a = (?snapshot, None)"
      using None a by simp
    from addResourceOffers_world [OF b] obtain nows where
      n: "length nows = length (missingFrom ?m 0 (length ?specs))"
         "trace w2 = trace ?w1 @ map TimeNow nows"
         "offers = map (\<lambda>(i, now). builtFor controller (int i) (?specs ! (i - 0)) now)
                  (zip (missingFrom ?m 0 (length ?specs)) nows)"
      by auto
    have len: "length nows = length (missingIndices ?specs ?snapshot)"
      using n(1) missingFrom_existing [of ?snapshot ?specs, symmetric] by (simp del: missingFrom_existing)
    have offers: "offers = newOffers controller ?snapshot nows"
      unfolding n(3) newOffers_def missingFrom_existing [symmetric] zip_map1
      by (simp add: case_prod_unfold)
    have lo: "length offers = length nows"
      using offers len by (simp add: length_newOffers)
    from submitResourceOffers_world [OF s] show thesis
    proof (elim disjE exE conjE)
      assume "r3 = None" "trace w3 = trace w2 @ submitActions (accepted offers)"
      then show thesis
        using all_added [where snapshot = ?snapshot and nows = nows] rw len n(2) offers qa by (simp add: since_def)
    next
      fix k e
      assume "r3 = Some e" "k < length offers"
        "trace w3 = trace w2 @ submitActions (accepted (take k offers) @ [(offers ! k, Some e)])"
      then show thesis
        using add_failed [where e = e and snapshot = ?snapshot and nows = nows and n = k] rw len lo n(2) offers qa by (simp add: since_def)
    qed
  qed
qed

lemma set_submitActions:
  "a \<in> set (submitActions xs) \<Longrightarrow>
     isLog a \<or> (\<exists>offer err. (offer, err) \<in> set xs \<and> a = AddResourceOfferCall offer err)"
  by (auto simp add: submitActions_def)

lemma set_submitActions_accepted:
  "a \<in> set (submitActions (accepted offers)) \<Longrightarrow>
     isLog a \<or> (\<exists>offer. offer \<in> set offers \<and> a = AddResourceOfferCall offer None)"
  by (auto simp add: accepted_def dest!: set_submitActions)

lemma addErrors_none:
  "(\<And>offer e. AddResourceOfferCall offer (Some e) \<notin> set t) \<Longrightarrow> addErrors t = []"
proof (induction t)
  case Nil
  show ?case by (simp add: addErrors_def)
next
  case (Cons a t)
  have "addError a = []"
  proof (cases a)
    case (AddResourceOfferCall offer err)
    with Cons.prems [of offer] show ?thesis by (cases err) auto
  qed simp_all
  moreover have "addErrors t = []"
    using Cons.prems by (intro Cons.IH) auto
  ultimately show ?case by (simp add: addErrors_def)
qed

lemma addErrors_append: "addErrors (t @ u) = addErrors t @ addErrors u"
  by (simp add: addErrors_def)

lemma addErrors_cycle: "addErrors (map TimeNow nows @ submitActions (accepted offers)) = []"
  by (rule addErrors_none) (auto dest: set_submitActions_accepted)

lemma last_only:
  "t = pre @ x # post \<Longrightarrow> x \<notin> set (butlast t) \<Longrightarrow> post = [] \<and> x = last t"
  by (cases post rule: rev_cases) (auto simp add: butlast_append)

lemma map_fst_accepted: "map fst (accepted offers) = offers"
  by (simp add: accepted_def comp_def)

lemma sdiv_nonneg: "0 \<le> k \<Longrightarrow> k sdiv 1000000 = k div (1000000 :: int)"
  by (cases "k = 0") (simp_all add: signed_divide_int_def sgn_if)

lemma addCalls_set:
  "offer \<in> set (addCalls t) \<longleftrightarrow> (\<exists>err. AddResourceOfferCall offer err \<in> set t)"
proof (induction t)
  case Nil
  show ?case by (simp add: addCalls_simps)
next
  case (Cons a t)
  then show ?case by (cases a) (auto simp add: addCalls_simps)
qed

lemma ensureResourceOffers_calls:
  assumes "ensureResourceOffers controller w = (r, w')"
    and "AddResourceOfferCall offer err \<in> set (since w w')"
  shows "\<exists>i now snapshot.
           GetResourceOffersCall (offersQuery controller) (snapshot, None) \<in> set (since w w')
         \<and> i \<in> set (missingIndices (opt_Specs (Offers (options controller))) snapshot)
         \<and> TimeNow now \<in> set (since w w')
         \<and> offer = builtFor controller i (opt_Specs (Offers (options controller)) ! nat i) now"
  using assms(1)
proof (cases rule: ensureResourceOffers_cases)
  case (query_failed snapshot e)
  with assms(2) show ?thesis by simp
next
  case (all_added snapshot nows)
  from assms(2) have "offer \<in> set (newOffers controller snapshot nows)"
    unfolding all_added(3) by (auto dest: set_submitActions_accepted)
  from in_newOffers [OF this] show ?thesis
    unfolding all_added(3) by auto
next
  case (add_failed snapshot nows n e)
  let ?new = "newOffers controller snapshot nows"
  have len: "length ?new = length nows"
    using add_failed(2) by (rule length_newOffers)
  from assms(2) have "offer \<in> set (take n ?new) \<or> offer = ?new ! n"
    unfolding add_failed(4) by (auto simp add: accepted_def dest!: set_submitActions)
  then have "offer \<in> set ?new"
    using add_failed(3) len by (auto dest: in_set_takeD)
  from in_newOffers [OF this] show ?thesis
    unfolding add_failed(4) by auto
qed

subsection \<open>The scenarios, run\<close>

lemma rejecting_run:
  "ensureResourceOffers rejecting world0 =
     (Some (Error ''offer rejected''),
      \<lparr>ext = 0, trace =
        [GetResourceOffersCall \<lparr>roq_ResourceProvider = ''0xRP'', roq_Active = True\<rparr> ([], None),
         TimeNow 1700000000123456789, TimeNow 1700000000123456789, TimeNow 1700000000123456789,
         Log InfoLevel ''add resource offer''
           (DataOffer (builtFor rejecting 0 ''specA'' 1700000000123456789)),
         AddResourceOfferCall (builtFor rejecting 0 ''specA'' 1700000000123456789) None,
         Log InfoLevel ''add resource offer''
           (DataOffer (builtFor rejecting 1 ''specB'' 1700000000123456789)),
         AddResourceOfferCall (builtFor rejecting 1 ''specB'' 1700000000123456789)
           (Some (Error ''offer rejected''))]\<rparr>)"
  by (simp add: ensureResourceOffers_def rejecting_def quiet_def provider_def world0_def
        call_def getResourceOffer_def builtFor_def Info_def logWithCaller_def emit_def)

lemma oneActive_run:
  "ensureResourceOffers oneActive world0 =
     (None,
      \<lparr>ext = 0, trace =
        [GetResourceOffersCall \<lparr>roq_ResourceProvider = ''0xRP'', roq_Active = True\<rparr>
           ([\<lparr>container_ID = ''offer0'',
              container_ResourceOffer = builtFor provider 0 ''specA'' 1600000000000000000\<rparr>], None),
         TimeNow 1700000000123456789,
         Log InfoLevel ''add resource offer''
           (DataOffer (builtFor oneActive 1 ''specB'' 1700000000123456789)),
         AddResourceOfferCall (builtFor oneActive 1 ''specB'' 1700000000123456789) None]\<rparr>)"
  by (simp add: ensureResourceOffers_def oneActive_def quiet_def provider_def world0_def
        call_def getResourceOffer_def builtFor_def Info_def logWithCaller_def emit_def)

lemma unreachable_run:
  "ensureResourceOffers unreachable world0 =
     (Some (Error ''solver unreachable''),
      \<lparr>ext = 0, trace =
        [GetResourceOffersCall \<lparr>roq_ResourceProvider = ''0xRP'', roq_Active = True\<rparr>
           ([], Some (Error ''solver unreachable''))]\<rparr>)"
  by (simp add: ensureResourceOffers_def unreachable_def quiet_def provider_def world0_def
        call_def)

lemma trace_world0: "trace world0 = []"
  by (simp add: world0_def)

lemma offersQuery_scenarios:
  "offersQuery rejecting = \<lparr>roq_ResourceProvider = ''0xRP'', roq_Active = True\<rparr>"
  "offersQuery oneActive = \<lparr>roq_ResourceProvider = ''0xRP'', roq_Active = True\<rparr>"
  "offersQuery unreachable = \<lparr>roq_ResourceProvider = ''0xRP'', roq_Active = True\<rparr>"
  by (simp_all add: offersQuery_def rejecting_def oneActive_def unreachable_def provider_def)

lemma rejecting_since:
  "since world0 (snd (ensureResourceOffers rejecting world0)) =
     [GetResourceOffersCall (offersQuery rejecting) ([], None),
      TimeNow 1700000000123456789, TimeNow 1700000000123456789, TimeNow 1700000000123456789,
      Log InfoLevel ''add resource offer''
        (DataOffer (builtFor rejecting 0 ''specA'' 1700000000123456789)),
      AddResourceOfferCall (builtFor rejecting 0 ''specA'' 1700000000123456789) None,
      Log InfoLevel ''add resource offer''
        (DataOffer (builtFor rejecting 1 ''specB'' 1700000000123456789)),
      AddResourceOfferCall (builtFor rejecting 1 ''specB'' 1700000000123456789)
        (Some (Error ''offer rejected''))]"
  by (simp add: rejecting_run since_def trace_world0 offersQuery_scenarios)

lemma oneActive_since:
  "since world0 (snd (ensureResourceOffers oneActive world0)) =
     [GetResourceOffersCall (offersQuery oneActive)
        ([\<lparr>container_ID = ''offer0'',
           container_ResourceOffer = builtFor provider 0 ''specA'' 1600000000000000000\<rparr>], None),
      TimeNow 1700000000123456789,
      Log InfoLevel ''add resource offer''
        (DataOffer (builtFor oneActive 1 ''specB'' 1700000000123456789)),
      AddResourceOfferCall (builtFor oneActive 1 ''specB'' 1700000000123456789) None]"
  by (simp add: oneActive_run since_def trace_world0 offersQuery_scenarios)

lemma unreachable_since:
  "since world0 (snd (ensureResourceOffers unreachable world0)) =
     [GetResourceOffersCall (offersQuery unreachable) ([], Some (Error ''solver unreachable''))]"
  by (simp add: unreachable_run since_def trace_world0 offersQuery_scenarios)

lemma Index_builtFor: "Index (builtFor controller i spec now) = i"
  by (simp add: builtFor_def)

subsection \<open>Ensure resource offers: the claims\<close>

text \<open>
  C3, as amended. A call of \<open>ensureResourceOffers\<close> starts with one query of the active
  offers; its answer is the snapshot. Whatever happens next, the add-offer calls of the
  cycle are for the first \<open>n\<close> missing indices of the catalogue, in catalogue order, each
  index being the catalogue position: never two calls for one index, never a call for a
  covered index. When the query succeeds and no add-offer call is answered with an error,
  there is exactly one add-offer call for each missing index and the call returns success;
  a call that returns success had no failed query and no failed add-offer call. When the
  query succeeds and every configured index is covered, there is no add-offer call and the
  call returns success.
\<close>

theorem ensureResourceOffers_adds_missing:
  assumes "ensureResourceOffers controller w = (r, w')"
  shows "\<exists>snapshot qerr rest.
           since w w' = GetResourceOffersCall (offersQuery controller) (snapshot, qerr) # rest
         \<and> (\<exists>n. map Index (addCalls rest)
                  = take n (missingIndices (opt_Specs (Offers (options controller))) snapshot))
         \<and> distinct (map Index (addCalls rest))
         \<and> (qerr = None \<and> addErrors rest = [] \<longrightarrow>
              r = None \<and> map Index (addCalls rest)
                  = missingIndices (opt_Specs (Offers (options controller))) snapshot)
         \<and> (r = None \<longrightarrow> qerr = None \<and> addErrors rest = [])
         \<and> (qerr = None \<and> missingIndices (opt_Specs (Offers (options controller))) snapshot = []
              \<longrightarrow> r = None \<and> addCalls rest = [])"
  using assms
proof (cases rule: ensureResourceOffers_cases)
  case (query_failed snapshot e)
  show ?thesis
    apply (rule exI [of _ snapshot], rule exI [of _ "Some e"], rule exI [of _ "[]"])
    using query_failed by (simp add: addCalls_simps)
next
  case (all_added snapshot nows)
  let ?rest = "map TimeNow nows @ submitActions (accepted (newOffers controller snapshot nows))"
  have a: "map Index (addCalls ?rest)
             = missingIndices (opt_Specs (Offers (options controller))) snapshot"
    using Index_newOffers [OF all_added(2)]
    by (simp add: addCalls_simps addCalls_TimeNow addCalls_submitActions map_fst_accepted)
  have b: "\<exists>n. map Index (addCalls ?rest)
             = take n (missingIndices (opt_Specs (Offers (options controller))) snapshot)"
    using a by (metis take_all order_refl)
  have c: "missingIndices (opt_Specs (Offers (options controller))) snapshot = []
             \<longrightarrow> addCalls ?rest = []"
    using a by (metis map_is_Nil_conv)
  have d: "distinct (map Index (addCalls ?rest))"
    unfolding a by (rule distinct_missingIndices)
  have e: "addErrors ?rest = []"
    by (rule addErrors_cycle)
  show ?thesis
    apply (rule exI [of _ snapshot], rule exI [of _ None], rule exI [of _ ?rest])
    using all_added(1,3) a b c d e by blast
next
  case (add_failed snapshot nows n e)
  let ?new = "newOffers controller snapshot nows"
  let ?missing = "missingIndices (opt_Specs (Offers (options controller))) snapshot"
  let ?rest = "map TimeNow nows @ submitActions (accepted (take n ?new) @ [(?new ! n, Some e)])"
  have len: "length ?new = length nows"
    using add_failed(2) by (rule length_newOffers)
  have "addCalls ?rest = take n ?new @ [?new ! n]"
    by (simp add: addCalls_simps addCalls_TimeNow addCalls_submitActions map_fst_accepted)
  also have "\<dots> = take (Suc n) ?new"
    using add_failed(3) len by (simp add: take_Suc_conv_app_nth)
  finally have "map Index (addCalls ?rest) = take (Suc n) (map Index ?new)"
    by (simp add: take_map)
  then have a: "map Index (addCalls ?rest) = take (Suc n) ?missing"
    using Index_newOffers [OF add_failed(2)] by simp
  have d: "distinct (map Index (addCalls ?rest))"
    unfolding a using distinct_missingIndices by (rule distinct_take)
  have ne: "?missing \<noteq> []"
    using add_failed(2,3) by auto
  have f: "addErrors ?rest \<noteq> []"
    by (simp add: addErrors_append submitActions_simps addErrors_def)
  show ?thesis
    apply (rule exI [of _ snapshot], rule exI [of _ None], rule exI [of _ ?rest])
    using add_failed(1,4) a d ne f by blast
qed

theorem ensureResourceOffers_adds_missing_witness:
  "map Index (addCalls (since world0 (snd (ensureResourceOffers oneActive world0)))) = [1]
   \<and> fst (ensureResourceOffers oneActive world0) = None
   \<and> missingIndices (opt_Specs (Offers (options oneActive)))
        [\<lparr>container_ID = ''offer0'',
          container_ResourceOffer = builtFor provider 0 ''specA'' 1600000000000000000\<rparr>] = [1]"
proof -
  have m: "missingIndices (opt_Specs (Offers (options oneActive)))
        [\<lparr>container_ID = ''offer0'',
          container_ResourceOffer = builtFor provider 0 ''specA'' 1600000000000000000\<rparr>] = [1]"
    by (simp add: missingIndices_def coveredIndices_def oneActive_def provider_def
          Index_builtFor upt_rec)
  have run: "ensureResourceOffers oneActive world0
               = (None, snd (ensureResourceOffers oneActive world0))"
    by (simp add: oneActive_run)
  from ensureResourceOffers_adds_missing [OF run] obtain snapshot qerr rest where
    "since world0 (snd (ensureResourceOffers oneActive world0))
       = GetResourceOffersCall (offersQuery oneActive) (snapshot, qerr) # rest"
    "map Index (addCalls rest)
       = missingIndices (opt_Specs (Offers (options oneActive))) snapshot"
    by auto
  then have "map Index (addCalls (since world0 (snd (ensureResourceOffers oneActive world0))))
       = missingIndices (opt_Specs (Offers (options oneActive)))
           [\<lparr>container_ID = ''offer0'',
             container_ResourceOffer = builtFor provider 0 ''specA'' 1600000000000000000\<rparr>]"
    by (auto simp add: oneActive_since addCalls_simps)
  with m show ?thesis by (simp add: oneActive_run)
qed

text \<open>
  C3 as the spec states it fails: with a catalogue of three and no active offer, all of the
  indices 0, 1 and 2 are missing; the solver rejects the offer with index 1, and the cycle
  ends there with no add-offer call for index 2.
\<close>

theorem ensureResourceOffers_adds_missing_counterexample:
  "hd (since world0 (snd (ensureResourceOffers rejecting world0))) =
     GetResourceOffersCall (offersQuery rejecting) ([], None)
   \<and> missingIndices (opt_Specs (Offers (options rejecting))) [] = [0, 1, 2]
   \<and> map Index (addCalls (since world0 (snd (ensureResourceOffers rejecting world0)))) = [0, 1]
   \<and> count_list (map Index (addCalls (since world0 (snd (ensureResourceOffers rejecting world0))))) 2
       \<noteq> 1"
proof -
  have "missingIndices (opt_Specs (Offers (options rejecting))) [] = [0, 1, 2]"
    by (simp add: missingIndices_def coveredIndices_def rejecting_def upt_rec)
  then show ?thesis
    by (simp add: rejecting_since addCalls_def Index_builtFor)
qed

text \<open>
  C5. Every offer that a call of \<open>ensureResourceOffers\<close> submits was built for a position
  \<open>i\<close> of the catalogue that the snapshot of this call does not cover: its index is \<open>i\<close>,
  its spec the entry at \<open>i\<close>, its \<open>CreatedAt\<close> a reading of the clock taken in this call,
  in nanoseconds, divided by a million (for a clock at or after the epoch: the milliseconds
  since the epoch, rounded down), its resource provider the provider's own address; modules,
  mode, default pricing, default timeouts and trusted parties are those of the options, and
  the pricing and timeouts by module are empty maps.
\<close>

theorem ensureResourceOffers_offer_fields:
  assumes "ensureResourceOffers controller w = (r, w')"
    and "offer \<in> set (addCalls (since w w'))"
  shows "\<exists>i now snapshot. i < length (opt_Specs (Offers (options controller)))
         \<and> GetResourceOffersCall (offersQuery controller) (snapshot, None) \<in> set (since w w')
         \<and> int i \<notin> coveredIndices snapshot
         \<and> TimeNow now \<in> set (since w w')
         \<and> Index offer = int i
         \<and> Spec offer = opt_Specs (Offers (options controller)) ! i
         \<and> CreatedAt offer = sint now sdiv 1000000
         \<and> (0 \<le> sint now \<longrightarrow> CreatedAt offer = sint now div 1000000)
         \<and> ResourceProvider offer = address controller
         \<and> Modules offer = opt_Modules (Offers (options controller))
         \<and> Mode offer = opt_Mode (Offers (options controller))
         \<and> DefaultPricing offer = opt_DefaultPricing (Offers (options controller))
         \<and> DefaultTimeouts offer = opt_DefaultTimeouts (Offers (options controller))
         \<and> TrustedParties offer = opt_TrustedParties (Offers (options controller))
         \<and> ModulePricing offer = Map.empty
         \<and> ModuleTimeouts offer = Map.empty"
proof -
  from assms(2) obtain err where "AddResourceOfferCall offer err \<in> set (since w w')"
    by (auto simp add: addCalls_set)
  from ensureResourceOffers_calls [OF assms(1) this] obtain i now snapshot where
    f: "GetResourceOffersCall (offersQuery controller) (snapshot, None) \<in> set (since w w')"
       "i \<in> set (missingIndices (opt_Specs (Offers (options controller))) snapshot)"
       "TimeNow now \<in> set (since w w')"
       "offer = builtFor controller i (opt_Specs (Offers (options controller)) ! nat i) now"
    by blast
  from f(2) have i: "nat i < length (opt_Specs (Offers (options controller)))"
      "int (nat i) \<notin> coveredIndices snapshot" "int (nat i) = i"
    by (auto simp add: in_missingIndices nat_less_iff)
  show ?thesis
    apply (rule exI [of _ "nat i"], rule exI [of _ now], rule exI [of _ snapshot])
    using f(1,3,4) i by (simp add: builtFor_def sdiv_nonneg)
qed

theorem ensureResourceOffers_offer_fields_witness:
  "builtFor oneActive 1 ''specB'' 1700000000123456789
     \<in> set (addCalls (since world0 (snd (ensureResourceOffers oneActive world0))))
   \<and> (\<exists>i now snapshot. i < length (opt_Specs (Offers (options oneActive)))
         \<and> GetResourceOffersCall (offersQuery oneActive) (snapshot, None)
              \<in> set (since world0 (snd (ensureResourceOffers oneActive world0)))
         \<and> int i \<notin> coveredIndices snapshot
         \<and> TimeNow now \<in> set (since world0 (snd (ensureResourceOffers oneActive world0)))
         \<and> Index (builtFor oneActive 1 ''specB'' 1700000000123456789) = int i
         \<and> Spec (builtFor oneActive 1 ''specB'' 1700000000123456789)
             = opt_Specs (Offers (options oneActive)) ! i
         \<and> CreatedAt (builtFor oneActive 1 ''specB'' 1700000000123456789) = sint now sdiv 1000000)
   \<and> CreatedAt (builtFor oneActive 1 ''specB'' 1700000000123456789) = 1700000000123
   \<and> Modules (builtFor oneActive 1 ''specB'' 1700000000123456789) = [''cowsay'']
   \<and> DefaultPricing (builtFor oneActive 1 ''specB'' 1700000000123456789) = getDefaultPricing"
proof -
  have run: "ensureResourceOffers oneActive world0
               = (None, snd (ensureResourceOffers oneActive world0))"
    by (simp add: oneActive_run)
  have submitted: "builtFor oneActive 1 ''specB'' 1700000000123456789
     \<in> set (addCalls (since world0 (snd (ensureResourceOffers oneActive world0))))"
    by (simp add: oneActive_since addCalls_def)
  from ensureResourceOffers_offer_fields [OF run submitted] have
    "\<exists>i now snapshot. i < length (opt_Specs (Offers (options oneActive)))
         \<and> GetResourceOffersCall (offersQuery oneActive) (snapshot, None)
              \<in> set (since world0 (snd (ensureResourceOffers oneActive world0)))
         \<and> int i \<notin> coveredIndices snapshot
         \<and> TimeNow now \<in> set (since world0 (snd (ensureResourceOffers oneActive world0)))
         \<and> Index (builtFor oneActive 1 ''specB'' 1700000000123456789) = int i
         \<and> Spec (builtFor oneActive 1 ''specB'' 1700000000123456789)
             = opt_Specs (Offers (options oneActive)) ! i
         \<and> CreatedAt (builtFor oneActive 1 ''specB'' 1700000000123456789) = sint now sdiv 1000000"
    by blast
  moreover have "CreatedAt (builtFor oneActive 1 ''specB'' 1700000000123456789) = 1700000000123
   \<and> Modules (builtFor oneActive 1 ''specB'' 1700000000123456789) = [''cowsay'']
   \<and> DefaultPricing (builtFor oneActive 1 ''specB'' 1700000000123456789) = getDefaultPricing"
    by (simp add: builtFor_def oneActive_def provider_def signed_divide_int_def)
  ultimately show ?thesis using submitted by blast
qed

text \<open>
  C7. In a call of \<open>ensureResourceOffers\<close>: when the solver answers the query of the active
  offers with an error, the call returns that error and has made no add-offer call; when the
  solver answers an add-offer call with an error, the call returns that error and that call
  is the last action of the cycle. So no add-offer call follows it, and nothing is done
  about the offers added before it: every add-offer call before it was answered with
  success, and no action of the cycle comes after to take one back.
\<close>

theorem ensureResourceOffers_fail_fast:
  assumes "ensureResourceOffers controller w = (r, w')"
  shows "(\<forall>snapshot e. GetResourceOffersCall (offersQuery controller) (snapshot, Some e)
              \<in> set (since w w') \<longrightarrow>
            r = Some e \<and> addCalls (since w w') = [])
       \<and> (\<forall>pre offer e post. since w w' = pre @ AddResourceOfferCall offer (Some e) # post \<longrightarrow>
            r = Some e \<and> post = [] \<and> addErrors pre = [])"
  using assms
proof (cases rule: ensureResourceOffers_cases)
  case (query_failed snapshot e)
  then show ?thesis
    by (auto simp add: addCalls_simps Cons_eq_append_conv)
next
  case (all_added snapshot nows)
  have no_q: "GetResourceOffersCall (offersQuery controller) (s, Some e) \<notin> set (since w w')" for s e
    unfolding all_added(3) by (auto dest: set_submitActions_accepted)
  have "AddResourceOfferCall offer (Some e) \<notin> set (since w w')" for offer e
    unfolding all_added(3) by (auto dest: set_submitActions_accepted)
  then have no_fail: "since w w' \<noteq> pre @ AddResourceOfferCall offer (Some e) # post"
    for pre offer e post
    by (metis in_set_conv_decomp)
  show ?thesis using no_q no_fail by blast
next
  case (add_failed snapshot nows n e)
  let ?new = "newOffers controller snapshot nows"
  let ?t = "GetResourceOffersCall (offersQuery controller) (snapshot, None) # map TimeNow nows
             @ submitActions (accepted (take n ?new))
             @ [Log InfoLevel ''add resource offer'' (DataOffer (?new ! n))]"
  have t: "since w w' = ?t @ [AddResourceOfferCall (?new ! n) (Some e)]"
    unfolding add_failed(4) by (simp add: submitActions_simps)
  have no_q: "GetResourceOffersCall (offersQuery controller) (s, Some e') \<notin> set (since w w')" for s e'
    unfolding t by (auto dest: set_submitActions_accepted)
  have early: "AddResourceOfferCall offer (Some e') \<notin> set (butlast (since w w'))" for offer e'
    unfolding t by (auto simp add: butlast_append dest: set_submitActions_accepted)
  have last: "r = Some e' \<and> post = [] \<and> addErrors pre = []"
    if eq: "since w w' = pre @ AddResourceOfferCall offer (Some e') # post" for pre offer e' post
  proof -
    from last_only [OF eq early] have p: "post = []" "AddResourceOfferCall offer (Some e') = last (since w w')"
      by simp_all
    from eq p(1) have "butlast (since w w') = pre"
      by (simp add: butlast_append)
    then have "pre = butlast (since w w')"
      by simp
    with early have "addErrors pre = []"
      by (intro addErrors_none) simp
    with p add_failed(1) show ?thesis by (simp add: t)
  qed
  show ?thesis using no_q last by blast
qed

theorem ensureResourceOffers_fail_fast_witness:
  "GetResourceOffersCall (offersQuery unreachable) ([], Some (Error ''solver unreachable''))
     \<in> set (since world0 (snd (ensureResourceOffers unreachable world0)))
   \<and> fst (ensureResourceOffers unreachable world0) = Some (Error ''solver unreachable'')
   \<and> addCalls (since world0 (snd (ensureResourceOffers unreachable world0))) = []
   \<and> since world0 (snd (ensureResourceOffers rejecting world0)) =
       [GetResourceOffersCall (offersQuery rejecting) ([], None),
        TimeNow 1700000000123456789, TimeNow 1700000000123456789, TimeNow 1700000000123456789,
        Log InfoLevel ''add resource offer''
          (DataOffer (builtFor rejecting 0 ''specA'' 1700000000123456789)),
        AddResourceOfferCall (builtFor rejecting 0 ''specA'' 1700000000123456789) None,
        Log InfoLevel ''add resource offer''
          (DataOffer (builtFor rejecting 1 ''specB'' 1700000000123456789))]
       @ AddResourceOfferCall (builtFor rejecting 1 ''specB'' 1700000000123456789)
           (Some (Error ''offer rejected'')) # []
   \<and> fst (ensureResourceOffers rejecting world0) = Some (Error ''offer rejected'')"
proof -
  have run1: "ensureResourceOffers unreachable world0
               = (fst (ensureResourceOffers unreachable world0),
                  snd (ensureResourceOffers unreachable world0))"
    by simp
  have q: "GetResourceOffersCall (offersQuery unreachable) ([], Some (Error ''solver unreachable''))
     \<in> set (since world0 (snd (ensureResourceOffers unreachable world0)))"
    by (simp add: unreachable_since)
  have run2: "ensureResourceOffers rejecting world0
               = (fst (ensureResourceOffers rejecting world0),
                  snd (ensureResourceOffers rejecting world0))"
    by simp
  have t: "since world0 (snd (ensureResourceOffers rejecting world0)) =
       [GetResourceOffersCall (offersQuery rejecting) ([], None),
        TimeNow 1700000000123456789, TimeNow 1700000000123456789, TimeNow 1700000000123456789,
        Log InfoLevel ''add resource offer''
          (DataOffer (builtFor rejecting 0 ''specA'' 1700000000123456789)),
        AddResourceOfferCall (builtFor rejecting 0 ''specA'' 1700000000123456789) None,
        Log InfoLevel ''add resource offer''
          (DataOffer (builtFor rejecting 1 ''specB'' 1700000000123456789))]
       @ AddResourceOfferCall (builtFor rejecting 1 ''specB'' 1700000000123456789)
           (Some (Error ''offer rejected'')) # []"
    by (simp add: rejecting_since)
  from ensureResourceOffers_fail_fast [OF run1] q
  have "fst (ensureResourceOffers unreachable world0) = Some (Error ''solver unreachable'')
        \<and> addCalls (since world0 (snd (ensureResourceOffers unreachable world0))) = []"
    by blast
  moreover from ensureResourceOffers_fail_fast [OF run2] t
  have "fst (ensureResourceOffers rejecting world0) = Some (Error ''offer rejected'')"
    by blast
  ultimately show ?thesis using q t by blast
qed

text \<open>
  C9. Every action of a call of \<open>ensureResourceOffers\<close> is a log entry, a reading of the
  clock, the query of the active offers, or an add-offer call for an index that is a position
  of the catalogue and that no active offer of the snapshot has. So the cycle makes no call
  about an index that is covered, whatever the spec of the offer that covers it, and none
  about an index outside the catalogue; it has no call that updates, retires or deactivates
  an offer.
\<close>

theorem ensureResourceOffers_only_adds:
  assumes "ensureResourceOffers controller w = (r, w')"
    and "a \<in> set (since w w')"
  shows "isLog a \<or> isTimeNow a
       \<or> (\<exists>snapshot qerr. a = GetResourceOffersCall (offersQuery controller) (snapshot, qerr))
       \<or> (\<exists>offer err snapshot. a = AddResourceOfferCall offer err
            \<and> GetResourceOffersCall (offersQuery controller) (snapshot, None) \<in> set (since w w')
            \<and> Index offer \<notin> coveredIndices snapshot
            \<and> 0 \<le> Index offer
            \<and> Index offer < int (length (opt_Specs (Offers (options controller)))))"
proof (cases a)
  case (AddResourceOfferCall offer err)
  with assms(2) have "AddResourceOfferCall offer err \<in> set (since w w')" by simp
  from ensureResourceOffers_calls [OF assms(1) this] obtain i now snapshot where
    f: "GetResourceOffersCall (offersQuery controller) (snapshot, None) \<in> set (since w w')"
       "i \<in> set (missingIndices (opt_Specs (Offers (options controller))) snapshot)"
       "offer = builtFor controller i (opt_Specs (Offers (options controller)) ! nat i) now"
    by blast
  from f(3) have "Index offer = i" by (simp add: builtFor_def)
  with f(1,2) AddResourceOfferCall show ?thesis
    by (auto simp add: in_missingIndices)
next
  case (GetResourceOffersCall q x)
  from assms(1) have "q = offersQuery controller"
    using assms(2) GetResourceOffersCall
    by (cases rule: ensureResourceOffers_cases)
       (auto dest: set_submitActions simp add: accepted_def)
  with GetResourceOffersCall show ?thesis by (cases x) simp
qed (use assms in \<open>cases rule: ensureResourceOffers_cases;
        auto dest: set_submitActions simp add: accepted_def\<close>)+

theorem ensureResourceOffers_only_adds_witness:
  "AddResourceOfferCall (builtFor oneActive 1 ''specB'' 1700000000123456789) None
     \<in> set (since world0 (snd (ensureResourceOffers oneActive world0)))
   \<and> (\<exists>snapshot.
         GetResourceOffersCall (offersQuery oneActive) (snapshot, None)
           \<in> set (since world0 (snd (ensureResourceOffers oneActive world0)))
         \<and> Index (builtFor oneActive 1 ''specB'' 1700000000123456789) \<notin> coveredIndices snapshot
         \<and> 0 \<le> Index (builtFor oneActive 1 ''specB'' 1700000000123456789)
         \<and> Index (builtFor oneActive 1 ''specB'' 1700000000123456789)
             < int (length (opt_Specs (Offers (options oneActive)))))"
proof -
  have run: "ensureResourceOffers oneActive world0
               = (None, snd (ensureResourceOffers oneActive world0))"
    by (simp add: oneActive_run)
  have a: "AddResourceOfferCall (builtFor oneActive 1 ''specB'' 1700000000123456789) None
     \<in> set (since world0 (snd (ensureResourceOffers oneActive world0)))"
    by (simp add: oneActive_since)
  from ensureResourceOffers_only_adds [OF run a] show ?thesis
    using a by auto
qed

subsection \<open>Agree to deals\<close>

lemma agreeToDeals_range_world:
  "agreeToDeals_range deals w =
     w\<lparr>trace := trace w @ map (\<lambda>deal. Log InfoLevel ''agree to deal'' (DataDeal deal)) deals\<rparr>"
  by (induction deals arbitrary: w)
     (simp_all add: Info_def logWithCaller_def emit_def)

lemma agreeToDeals_world:
  "agreeToDeals controller w =
     (case solver_GetDeals (clients controller) (dealsQuery controller) (ext w) of
        ((deals, err), s) \<Rightarrow>
          (err, \<lparr>ext = s, trace = trace w @
             GetDealsCall (dealsQuery controller) (deals, err)
             # (if err = None then map (\<lambda>deal. Log InfoLevel ''agree to deal'' (DataDeal deal)) deals
                else [])\<rparr>))"
  by (auto simp add: agreeToDeals_def dealsQuery_def call_def Let_def agreeToDeals_range_world
        split: prod.split)

lemma agreeToDeals_actions:
  assumes "agreeToDeals controller w = (r, w')"
  shows "\<exists>es. trace w' = trace w @ es \<and> list_all cycleAction es \<and> agreeCalls es = []"
proof -
  obtain deals err s where
    g: "solver_GetDeals (clients controller) (dealsQuery controller) (ext w) = ((deals, err), s)"
    by (metis surj_pair)
  let ?es = "GetDealsCall (dealsQuery controller) (deals, err)
             # (if err = None then map (\<lambda>deal. Log InfoLevel ''agree to deal'' (DataDeal deal)) deals
                else [])"
  have "trace w' = trace w @ ?es"
    using assms g by (auto simp add: agreeToDeals_world)
  moreover have "list_all cycleAction ?es"
    by (auto simp add: list_all_iff)
  moreover have "agreeCalls ?es = []"
    by (auto simp add: agreeCalls_def)
  ultimately show ?thesis by blast
qed

text \<open>
  C1. \<open>agreeToDeals\<close> makes one query of the deals, with the provider's own address and
  the state \<open>DealNegotiating\<close>; it returns the error of a failed query, and returns success
  after an empty answer, with no further action (lemma \<open>agreeToDeals_world\<close>). For a
  negotiating deal that the query returns, the claim asks for one agree action on the ledger.
  The code logs the deal and does nothing else: with one negotiating deal for this provider,
  the call returns success after the query and one log entry, and its trace has no agree
  action.
\<close>

theorem agreeToDeals_logs_only:
  "agreeToDeals negotiating world0 =
     (None,
      \<lparr>ext = 0, trace =
         [GetDealsCall \<lparr>dq_ResourceProvider = ''0xRP'', dq_State = ''DealNegotiating''\<rparr>
            ([dealForUs], None),
          Log InfoLevel ''agree to deal'' (DataDeal dealForUs)]\<rparr>)
   \<and> agreeCalls (trace (snd (agreeToDeals negotiating world0))) = []"
  by (simp add: agreeToDeals_world dealsQuery_def negotiating_def provider_def quiet_def
        world0_def agreeCalls_def)

subsection \<open>The setup of \<open>Start\<close>\<close>

lemma Start_setup_world:
  "Start_setup controller w =
     (case solver_Start (clients controller) (ext w) of
        (Some err, s) \<Rightarrow>
          Blocks \<lparr>ext = s, trace = trace w @
            [SubscribeEvents, SubscribeDealStateChange, SolverClientStart (Some err)]\<rparr>
      | (None, s) \<Rightarrow>
          (case web3Events_Start (clients controller) s of
             (Some err, s') \<Rightarrow>
               Blocks \<lparr>ext = s', trace = trace w @
                 [SubscribeEvents, SubscribeDealStateChange, SolverClientStart None,
                  Web3EventsStart (Some err)]\<rparr>
           | (None, s') \<Rightarrow>
               Returns \<lparr>ext = s', trace = trace w @
                 [SubscribeEvents, SubscribeDealStateChange, SolverClientStart None,
                  Web3EventsStart None]\<rparr>))"
  by (simp add: Start_setup_def subscribeToSolver_def subscribeToWeb3_def call_def emit_def
        chanSend_def split: prod.split option.split)

text \<open>
  C4. The claim asks that an error of a setup step reaches the caller of \<open>Start\<close>. In the
  code the error is sent on \<open>errorChan\<close> before \<open>Start\<close> returns the channel, while no
  goroutine can receive from it: with a solver client that fails to start, \<open>Start\<close> blocks
  at the send and never returns, so its caller gets neither the channel nor the error. No
  value is delivered on the channel; the loop is never started, as the claim says.
\<close>

theorem Start_setup_error_blocks:
  "Start_setup solverDown world0 =
     Blocks \<lparr>ext = 0, trace =
       [SubscribeEvents, SubscribeDealStateChange,
        SolverClientStart (Some (Error ''solver client failed''))]\<rparr>
   \<and> Start 3 solverDown world0 = Some (Blocks (world_of (Start_setup solverDown world0)))
   \<and> errorChan (trace (world_of (Start_setup solverDown world0))) = []"
  by (simp add: Start_def Start_setup_world solverDown_def provider_def quiet_def world0_def
        errorChan_def)

subsection \<open>The reconciliation cycle and the loop\<close>

lemma ensureResourceOffers_grows:
  assumes "ensureResourceOffers controller w = (r, w')"
  shows "trace w' = trace w @ since w w'"
proof -
  let ?q = "\<lparr>roq_ResourceProvider = address controller, roq_Active = True\<rparr>"
  let ?a = "solver_GetResourceOffers (clients controller) ?q (ext w)"
  let ?w1 = "\<lparr>ext = snd ?a, trace = trace w @ [GetResourceOffersCall ?q (fst ?a)]\<rparr>"
  have c: "call (GetResourceOffersCall ?q) (solver_GetResourceOffers (clients controller) ?q) w
             = (fst ?a, ?w1)"
    by (simp add: call_world)
  have "\<exists>es. trace w' = trace w @ es"
  proof (cases "snd (fst ?a)")
    case (Some e)
    then have "ensureResourceOffers controller w = (Some e, ?w1)"
      using c unfolding ensureResourceOffers_def Let_def by (simp add: case_prod_unfold)
    with assms show ?thesis by auto
  next
    case None
    let ?m = "existingResourceOffersMap (fst (fst ?a)) Map.empty"
    let ?specs = "opt_Specs (Offers (options controller))"
    obtain offers w2 where b: "addResourceOffers controller ?m 0 ?specs [] ?w1 = (offers, w2)"
      by (cases "addResourceOffers controller ?m 0 ?specs [] ?w1")
    obtain r3 w3 where s: "submitResourceOffers controller offers w2 = (r3, w3)"
      by (cases "submitResourceOffers controller offers w2")
    have "ensureResourceOffers controller w = (r3, w3)"
      using None c b s unfolding ensureResourceOffers_def Let_def
      by (cases r3) (simp_all add: case_prod_unfold)
    with assms have w': "w' = w3" by simp
    from addResourceOffers_world [OF b] obtain es2 where "trace w2 = trace ?w1 @ es2"
      by blast
    moreover from submitResourceOffers_world [OF s] obtain es3 where "trace w3 = trace w2 @ es3"
      by blast
    ultimately show ?thesis using w' by simp
  qed
  then show ?thesis by (auto simp add: since_def)
qed

lemma isLog_cycleAction: "isLog a \<Longrightarrow> cycleAction a"
  by (cases a) simp_all

lemma ensureResourceOffers_actions:
  assumes "ensureResourceOffers controller w = (r, w')"
  shows "list_all cycleAction (since w w')"
  using assms
  by (cases rule: ensureResourceOffers_cases)
     (auto simp add: list_all_iff isLog_cycleAction dest!: set_submitActions)

lemma solve_world:
  assumes "solve controller w = (r, w')"
  shows "\<exists>es. trace w' = trace w @ Log DebugLevel ''solving'' (DataText []) # es
           \<and> list_all cycleAction es"
proof -
  let ?w0 = "Debug ''solving'' (DataText []) w"
  obtain r1 w1 where a: "agreeToDeals controller ?w0 = (r1, w1)"
    by (cases "agreeToDeals controller ?w0")
  from agreeToDeals_actions [OF a] obtain es1 where
    es1: "trace w1 = trace ?w0 @ es1" "list_all cycleAction es1"
    by blast
  show ?thesis
  proof (cases r1)
    case (Some e)
    with a assms have "w' = w1" by (simp add: solve_def)
    with es1 show ?thesis by (simp add: trace_log)
  next
    case None
    obtain r2 w2 where e: "ensureResourceOffers controller w1 = (r2, w2)"
      by (cases "ensureResourceOffers controller w1")
    with a None assms have "w' = w2" by (auto simp add: solve_def split: if_splits)
    moreover have "trace w2 = trace w1 @ since w1 w2"
      using e by (rule ensureResourceOffers_grows)
    moreover have "list_all cycleAction (since w1 w2)"
      using e by (rule ensureResourceOffers_actions)
    ultimately have "trace w' = trace w @ Log DebugLevel ''solving'' (DataText []) # (es1 @ since w1 w2)
        \<and> list_all cycleAction (es1 @ since w1 w2)"
      using es1 by (simp add: trace_log)
    then show ?thesis by blast
  qed
qed

lemma cycleAction_sent: "cycleAction a \<Longrightarrow> sent a = []"
  by (cases a) simp_all

lemma errorChan_cycle: "list_all cycleAction es \<Longrightarrow> errorChan es = []"
  by (induction es) (simp_all add: errorChan_def cycleAction_sent)

lemma errorChan_simps:
  "errorChan [] = []"
  "errorChan (a # t) = sent a @ errorChan t"
  "errorChan (t @ u) = errorChan t @ errorChan u"
  by (simp_all add: errorChan_def)

lemma Select_cycle: "list_all cycleAction es \<Longrightarrow> Select k \<notin> set es"
  by (auto simp add: list_all_iff)

lemma split_after_clean:
  "xs @ a # ys = pre @ x # post \<Longrightarrow> x \<notin> set xs \<Longrightarrow>
     (pre = xs \<and> a = x \<and> post = ys) \<or> (\<exists>pre2. pre = xs @ a # pre2 \<and> ys = pre2 @ x # post)"
proof (induction xs arbitrary: pre)
  case Nil
  then show ?case by (cases pre) auto
next
  case (Cons y xs)
  then show ?case by (cases pre) auto
qed

lemma selectWake_world:
  "selectWake controller w =
     (fst (ctx_select (clients controller) (ext w)),
      \<lparr>ext = snd (ctx_select (clients controller) (ext w)),
       trace = trace w @ [Select (fst (ctx_select (clients controller) (ext w)))]\<rparr>)"
  by (simp add: selectWake_def call_world)

lemma Start_loop_error:
  "solve controller w = (Some e, w1) \<Longrightarrow>
     Start_loop (Suc n) controller w =
       Some (Returns (w1\<lparr>trace := trace w1 @
          [Log ErrorLevel ''error solving'' (DataError e), ChanSend e]\<rparr>))"
  by (simp add: chanSend_def Error_log_def logWithCaller_def emit_def)

lemma Start_loop_cancelled:
  "solve controller w = (None, w1) \<Longrightarrow> ctx_select (clients controller) (ext w1) = (CtxDone, s) \<Longrightarrow>
     Start_loop (Suc n) controller w =
       Some (Returns \<lparr>ext = s, trace = trace w1 @ [Select CtxDone]\<rparr>)"
  by (simp add: selectWake_world)

lemma Start_loop_again:
  "solve controller w = (None, w1) \<Longrightarrow> ctx_select (clients controller) (ext w1) = (TimerFired, s) \<Longrightarrow>
     Start_loop (Suc n) controller w =
       Start_loop n controller \<lparr>ext = s, trace = trace w1 @ [Select TimerFired]\<rparr>"
  by (simp add: selectWake_world)

text \<open>How a run of the loop ends.\<close>

lemma Start_loop_end:
  "Start_loop n controller w = Some out \<Longrightarrow>
     \<exists>pre w0 w1 r. solve controller w0 = (r, w1) \<and> trace w1 = trace w @ pre \<and> errorChan pre = []
       \<and> ((\<exists>e. r = Some e \<and> out = Returns (w1\<lparr>trace := trace w1 @
                  [Log ErrorLevel ''error solving'' (DataError e), ChanSend e]\<rparr>))
          \<or> (r = None \<and> (\<exists>s. ctx_select (clients controller) (ext w1) = (CtxDone, s)
                \<and> out = Returns \<lparr>ext = s, trace = trace w1 @ [Select CtxDone]\<rparr>)))"
proof (induction n arbitrary: w)
  case 0
  then show ?case by simp
next
  case (Suc n)
  obtain r w1 where s: "solve controller w = (r, w1)"
    by (cases "solve controller w")
  from solve_world [OF s] obtain es where
    es: "trace w1 = trace w @ Log DebugLevel ''solving'' (DataText []) # es" "list_all cycleAction es"
    by blast
  let ?pre = "Log DebugLevel ''solving'' (DataText []) # es"
  have clean: "errorChan ?pre = []"
    using es(2) by (simp add: errorChan_simps errorChan_cycle)
  show ?case
  proof (cases r)
    case (Some e)
    with s Suc.prems have "out = Returns (w1\<lparr>trace := trace w1 @
          [Log ErrorLevel ''error solving'' (DataError e), ChanSend e]\<rparr>)"
      by (simp add: Start_loop_error del: Start_loop.simps)
    with s Some es(1) clean show ?thesis by blast
  next
    case None
    obtain k s2 where sel: "ctx_select (clients controller) (ext w1) = (k, s2)"
      by (cases "ctx_select (clients controller) (ext w1)")
    show ?thesis
    proof (cases k)
      case CtxDone
      with s None sel Suc.prems have "out = Returns \<lparr>ext = s2, trace = trace w1 @ [Select CtxDone]\<rparr>"
        by (simp add: Start_loop_cancelled del: Start_loop.simps)
      with s None sel CtxDone es(1) clean show ?thesis by blast
    next
      case TimerFired
      let ?w2 = "\<lparr>ext = s2, trace = trace w1 @ [Select TimerFired]\<rparr>"
      from s None sel TimerFired Suc.prems have "Start_loop n controller ?w2 = Some out"
        by (simp add: Start_loop_again del: Start_loop.simps)
      from Suc.IH [OF this] obtain pre w0 w1' r' where
        ih: "solve controller w0 = (r', w1')" "trace w1' = trace ?w2 @ pre" "errorChan pre = []"
          "(\<exists>e. r' = Some e \<and> out = Returns (w1'\<lparr>trace := trace w1' @
                  [Log ErrorLevel ''error solving'' (DataError e), ChanSend e]\<rparr>))
          \<or> (r' = None \<and> (\<exists>s. ctx_select (clients controller) (ext w1') = (CtxDone, s)
                \<and> out = Returns \<lparr>ext = s, trace = trace w1' @ [Select CtxDone]\<rparr>))"
        by blast
      have "trace w1' = trace w @ (?pre @ Select TimerFired # pre)"
        using ih(2) es(1) by simp
      moreover have "errorChan (?pre @ Select TimerFired # pre) = []"
        using clean ih(3) by (simp add: errorChan_simps)
      ultimately show ?thesis using ih(1,4) by blast
    qed
  qed
qed

text \<open>What the trace holds just before a \<open>select\<close>, and that a cancellation ends the run.\<close>

lemma Start_loop_select:
  "Start_loop n controller w = Some out \<Longrightarrow>
   trace (world_of out) = trace w @ pre @ Select k # post \<Longrightarrow>
     (\<exists>w0 w1. solve controller w0 = (None, w1) \<and> trace w1 = trace w @ pre)
     \<and> (k = CtxDone \<longrightarrow> post = [])"
proof (induction n arbitrary: w pre)
  case 0
  then show ?case by simp
next
  case (Suc n)
  obtain r w1 where s: "solve controller w = (r, w1)"
    by (cases "solve controller w")
  from solve_world [OF s] obtain es where
    es: "trace w1 = trace w @ Log DebugLevel ''solving'' (DataText []) # es" "list_all cycleAction es"
    by blast
  let ?cyc = "Log DebugLevel ''solving'' (DataText []) # es"
  have nosel: "Select k \<notin> set ?cyc"
    using es(2) by (simp add: Select_cycle)
  show ?case
  proof (cases r)
    case (Some e)
    with s Suc.prems(1) have "out = Returns (w1\<lparr>trace := trace w1 @
          [Log ErrorLevel ''error solving'' (DataError e), ChanSend e]\<rparr>)"
      by (simp add: Start_loop_error del: Start_loop.simps)
    with Suc.prems(2) es(1)
    have "?cyc @ Log ErrorLevel ''error solving'' (DataError e) # [ChanSend e] = pre @ Select k # post"
      by simp
    from split_after_clean [OF this nosel] show ?thesis
      by (auto simp add: Cons_eq_append_conv)
  next
    case None
    obtain k2 s2 where sel: "ctx_select (clients controller) (ext w1) = (k2, s2)"
      by (cases "ctx_select (clients controller) (ext w1)")
    show ?thesis
    proof (cases k2)
      case CtxDone
      with s None sel Suc.prems(1) have "out = Returns \<lparr>ext = s2, trace = trace w1 @ [Select CtxDone]\<rparr>"
        by (simp add: Start_loop_cancelled del: Start_loop.simps)
      with Suc.prems(2) es(1)
      have "?cyc @ Select CtxDone # [] = pre @ Select k # post"
        by simp
      from split_after_clean [OF this nosel] have "pre = ?cyc" "post = []"
        by auto
      with s None es(1) show ?thesis by auto
    next
      case TimerFired
      let ?w2 = "\<lparr>ext = s2, trace = trace w1 @ [Select TimerFired]\<rparr>"
      from s None sel TimerFired Suc.prems(1) have run: "Start_loop n controller ?w2 = Some out"
        by (simp add: Start_loop_again del: Start_loop.simps)
      from Start_loop_end [OF run] obtain ps where ps: "trace (world_of out) = trace ?w2 @ ps"
        by auto
      with Suc.prems(2) es(1)
      have "?cyc @ Select TimerFired # ps = pre @ Select k # post"
        by simp
      from split_after_clean [OF this nosel] show ?thesis
      proof (elim disjE exE conjE)
        assume "pre = ?cyc" "Select TimerFired = Select k"
        with s None es(1) show ?thesis by auto
      next
        fix pre2
        assume p: "pre = ?cyc @ Select TimerFired # pre2" "ps = pre2 @ Select k # post"
        with ps have "trace (world_of out) = trace ?w2 @ pre2 @ Select k # post" by simp
        from Suc.IH [OF run this] obtain w0 w1' where
          "solve controller w0 = (None, w1')" "trace w1' = trace ?w2 @ pre2"
          "k = CtxDone \<longrightarrow> post = []"
          by blast
        with p(1) es(1) show ?thesis by auto
      qed
    qed
  qed
qed

lemma solve_after_agree:
  "agreeToDeals controller (Debug ''solving'' (DataText []) w) = (None, w1) \<Longrightarrow>
     solve controller w = ensureResourceOffers controller w1"
  by (cases "ensureResourceOffers controller w1") (simp add: solve_def)

lemma agreeToDeals_error:
  assumes "agreeToDeals controller w = (Some e, w1)"
  shows "\<exists>deals. since w w1 = [GetDealsCall (dealsQuery controller) (deals, Some e)]"
proof -
  obtain deals err s where
    g: "solver_GetDeals (clients controller) (dealsQuery controller) (ext w) = ((deals, err), s)"
    by (metis surj_pair)
  with assms have "err = Some e"
      "w1 = \<lparr>ext = s, trace = trace w @ [GetDealsCall (dealsQuery controller) (deals, Some e)]\<rparr>"
    by (auto simp add: agreeToDeals_world)
  then show ?thesis by (auto simp add: since_def)
qed

lemma addResourceOffers_select:
  "addResourceOffers (controller\<lparr>clients := (clients controller)\<lparr>ctx_select := f\<rparr>\<rparr>) m k specs acc w
     = addResourceOffers controller m k specs acc w"
  by (induction specs arbitrary: k acc w)
     (simp_all add: getResourceOffer_def call_def split: prod.split option.split)

lemma submitResourceOffers_select:
  "submitResourceOffers (controller\<lparr>clients := (clients controller)\<lparr>ctx_select := f\<rparr>\<rparr>) offers w
     = submitResourceOffers controller offers w"
  by (induction offers arbitrary: w) (simp_all add: call_def split: prod.split)

lemma agreeToDeals_select:
  "agreeToDeals (controller\<lparr>clients := (clients controller)\<lparr>ctx_select := f\<rparr>\<rparr>) w
     = agreeToDeals controller w"
  by (simp add: agreeToDeals_def)

lemma ensureResourceOffers_select:
  "ensureResourceOffers (controller\<lparr>clients := (clients controller)\<lparr>ctx_select := f\<rparr>\<rparr>) w
     = ensureResourceOffers controller w"
  by (simp add: ensureResourceOffers_def addResourceOffers_select submitResourceOffers_select
        cong: if_cong)

lemma solve_select:
  "solve (controller\<lparr>clients := (clients controller)\<lparr>ctx_select := f\<rparr>\<rparr>) w = solve controller w"
  by (simp add: solve_def agreeToDeals_select ensureResourceOffers_select cong: if_cong)

lemma Start_loop_grows:
  assumes "Start_loop n controller w = Some out"
  shows "trace (world_of out) = trace w @ since w (world_of out)"
proof -
  from Start_loop_end [OF assms] obtain ps where "trace (world_of out) = trace w @ ps"
    by auto
  then show ?thesis by (simp add: since_def)
qed

lemma Start_loop_first:
  assumes "Start_loop n controller w = Some out"
  shows "\<exists>rest. since w (world_of out) = Log DebugLevel ''solving'' (DataText []) # rest"
proof (cases n)
  case 0
  with assms show ?thesis by simp
next
  case (Suc m)
  obtain r w1 where s: "solve controller w = (r, w1)"
    by (cases "solve controller w")
  from solve_world [OF s] obtain es where
    es: "trace w1 = trace w @ Log DebugLevel ''solving'' (DataText []) # es"
    by blast
  have "\<exists>ps. trace (world_of out) = trace w1 @ ps"
  proof (cases r)
    case (Some e)
    with s assms Suc show ?thesis
      by (auto simp add: Start_loop_error simp del: Start_loop.simps)
  next
    case None
    obtain k s2 where sel: "ctx_select (clients controller) (ext w1) = (k, s2)"
      by (cases "ctx_select (clients controller) (ext w1)")
    show ?thesis
    proof (cases k)
      case CtxDone
      with s None sel assms Suc show ?thesis
        by (auto simp add: Start_loop_cancelled simp del: Start_loop.simps)
    next
      case TimerFired
      let ?w2 = "\<lparr>ext = s2, trace = trace w1 @ [Select TimerFired]\<rparr>"
      from s None sel TimerFired assms Suc have "Start_loop m controller ?w2 = Some out"
        by (simp add: Start_loop_again del: Start_loop.simps)
      from Start_loop_grows [OF this] show ?thesis
        by (metis append_assoc world.select_convs(2))
    qed
  qed
  with es show ?thesis by (auto simp add: since_def)
qed

text \<open>The world reached follows the loop: the same steps, the same traces.\<close>

lemma reached_error:
  "solve controller w = (Some e, w1) \<Longrightarrow>
     Start_loop_reached (Suc n) controller w =
       w1\<lparr>trace := trace w1 @ [Log ErrorLevel ''error solving'' (DataError e), ChanSend e]\<rparr>"
  by (simp add: chanSend_def Error_log_def logWithCaller_def emit_def)

lemma reached_cancelled:
  "solve controller w = (None, w1) \<Longrightarrow> ctx_select (clients controller) (ext w1) = (CtxDone, s) \<Longrightarrow>
     Start_loop_reached (Suc n) controller w = \<lparr>ext = s, trace = trace w1 @ [Select CtxDone]\<rparr>"
  by (simp add: selectWake_world)

lemma reached_again:
  "solve controller w = (None, w1) \<Longrightarrow> ctx_select (clients controller) (ext w1) = (TimerFired, s) \<Longrightarrow>
     Start_loop_reached (Suc n) controller w =
       Start_loop_reached n controller \<lparr>ext = s, trace = trace w1 @ [Select TimerFired]\<rparr>"
  by (simp add: selectWake_world)

lemma reached_of_loop:
  "Start_loop n controller w = Some out \<Longrightarrow> world_of out = Start_loop_reached n controller w"
proof (induction n arbitrary: w)
  case 0
  then show ?case by simp
next
  case (Suc n)
  obtain r w1 where s: "solve controller w = (r, w1)"
    by (cases "solve controller w")
  show ?case
  proof (cases r)
    case (Some e)
    with s Suc.prems show ?thesis
      by (auto simp add: Start_loop_error reached_error
            simp del: Start_loop.simps Start_loop_reached.simps)
  next
    case None
    obtain k s2 where sel: "ctx_select (clients controller) (ext w1) = (k, s2)"
      by (cases "ctx_select (clients controller) (ext w1)")
    show ?thesis
    proof (cases k)
      case CtxDone
      with s None sel Suc.prems show ?thesis
        by (auto simp add: Start_loop_cancelled reached_cancelled
              simp del: Start_loop.simps Start_loop_reached.simps)
    next
      case TimerFired
      with s None sel Suc.prems Suc.IH show ?thesis
        by (simp add: Start_loop_again reached_again
              del: Start_loop.simps Start_loop_reached.simps)
    qed
  qed
qed

lemma reached_grows:
  "\<exists>ps. trace (Start_loop_reached n controller w) = trace w @ ps"
proof (induction n arbitrary: w)
  case 0
  show ?case by simp
next
  case (Suc n)
  obtain r w1 where s: "solve controller w = (r, w1)"
    by (cases "solve controller w")
  from solve_world [OF s] obtain es where
    es: "trace w1 = trace w @ Log DebugLevel ''solving'' (DataText []) # es"
    by blast
  show ?case
  proof (cases r)
    case (Some e)
    with s es show ?thesis
      by (simp add: reached_error del: Start_loop_reached.simps)
  next
    case None
    obtain k s2 where sel: "ctx_select (clients controller) (ext w1) = (k, s2)"
      by (cases "ctx_select (clients controller) (ext w1)")
    show ?thesis
    proof (cases k)
      case CtxDone
      with s None sel es show ?thesis
        by (simp add: reached_cancelled del: Start_loop_reached.simps)
    next
      case TimerFired
      let ?w2 = "\<lparr>ext = s2, trace = trace w1 @ [Select TimerFired]\<rparr>"
      from Suc.IH [of ?w2] obtain ps where
        "trace (Start_loop_reached n controller ?w2) = trace ?w2 @ ps"
        by blast
      with s None sel TimerFired es show ?thesis
        by (simp add: reached_again del: Start_loop_reached.simps)
    qed
  qed
qed

lemma reached_first:
  "\<exists>rest. since w (Start_loop_reached (Suc n) controller w)
             = Log DebugLevel ''solving'' (DataText []) # rest"
proof -
  obtain r w1 where s: "solve controller w = (r, w1)"
    by (cases "solve controller w")
  from solve_world [OF s] obtain es where
    es: "trace w1 = trace w @ Log DebugLevel ''solving'' (DataText []) # es"
    by blast
  have "\<exists>ps. trace (Start_loop_reached (Suc n) controller w) = trace w1 @ ps"
  proof (cases r)
    case (Some e)
    with s show ?thesis
      by (simp add: reached_error del: Start_loop_reached.simps)
  next
    case None
    obtain k s2 where sel: "ctx_select (clients controller) (ext w1) = (k, s2)"
      by (cases "ctx_select (clients controller) (ext w1)")
    show ?thesis
    proof (cases k)
      case CtxDone
      with s None sel show ?thesis
        by (simp add: reached_cancelled del: Start_loop_reached.simps)
    next
      case TimerFired
      let ?w2 = "\<lparr>ext = s2, trace = trace w1 @ [Select TimerFired]\<rparr>"
      from reached_grows [of n controller ?w2] obtain ps where
        "trace (Start_loop_reached n controller ?w2) = trace ?w2 @ ps"
        by blast
      with s None sel TimerFired show ?thesis
        by (simp add: reached_again del: Start_loop_reached.simps)
    qed
  qed
  with es show ?thesis by (auto simp add: since_def)
qed

lemma reached_select:
  "trace (Start_loop_reached n controller w) = trace w @ pre @ Select k # post \<Longrightarrow>
     \<exists>w0 w1. solve controller w0 = (None, w1) \<and> trace w1 = trace w @ pre"
proof (induction n arbitrary: w pre)
  case 0
  then show ?case by simp
next
  case (Suc n)
  obtain r w1 where s: "solve controller w = (r, w1)"
    by (cases "solve controller w")
  from solve_world [OF s] obtain es where
    es: "trace w1 = trace w @ Log DebugLevel ''solving'' (DataText []) # es" "list_all cycleAction es"
    by blast
  let ?cyc = "Log DebugLevel ''solving'' (DataText []) # es"
  have nosel: "Select k \<notin> set ?cyc"
    using es(2) by (simp add: Select_cycle)
  show ?case
  proof (cases r)
    case (Some e)
    with s have "Start_loop_reached (Suc n) controller w = w1\<lparr>trace := trace w1 @
          [Log ErrorLevel ''error solving'' (DataError e), ChanSend e]\<rparr>"
      by (simp add: reached_error del: Start_loop_reached.simps)
    with Suc.prems es(1)
    have "?cyc @ Log ErrorLevel ''error solving'' (DataError e) # [ChanSend e] = pre @ Select k # post"
      by simp
    from split_after_clean [OF this nosel] show ?thesis
      by (auto simp add: Cons_eq_append_conv)
  next
    case None
    obtain k2 s2 where sel: "ctx_select (clients controller) (ext w1) = (k2, s2)"
      by (cases "ctx_select (clients controller) (ext w1)")
    show ?thesis
    proof (cases k2)
      case CtxDone
      with s None sel have "Start_loop_reached (Suc n) controller w
          = \<lparr>ext = s2, trace = trace w1 @ [Select CtxDone]\<rparr>"
        by (simp add: reached_cancelled del: Start_loop_reached.simps)
      with Suc.prems es(1)
      have "?cyc @ Select CtxDone # [] = pre @ Select k # post"
        by simp
      from split_after_clean [OF this nosel] have "pre = ?cyc"
        by auto
      with s None es(1) show ?thesis by auto
    next
      case TimerFired
      let ?w2 = "\<lparr>ext = s2, trace = trace w1 @ [Select TimerFired]\<rparr>"
      from s None sel TimerFired have run:
        "Start_loop_reached (Suc n) controller w = Start_loop_reached n controller ?w2"
        by (simp add: reached_again del: Start_loop_reached.simps)
      from reached_grows [of n controller ?w2] obtain ps where
        ps: "trace (Start_loop_reached n controller ?w2) = trace ?w2 @ ps"
        by blast
      with Suc.prems es(1) run
      have "?cyc @ Select TimerFired # ps = pre @ Select k # post"
        by simp
      from split_after_clean [OF this nosel] show ?thesis
      proof (elim disjE exE conjE)
        assume "pre = ?cyc"
        with s None es(1) show ?thesis by auto
      next
        fix pre2
        assume p: "pre = ?cyc @ Select TimerFired # pre2" "ps = pre2 @ Select k # post"
        with ps have "trace (Start_loop_reached n controller ?w2) = trace ?w2 @ pre2 @ Select k # post"
          by simp
        from Suc.IH [OF this] obtain w0 w1' where
          "solve controller w0 = (None, w1')" "trace w1' = trace ?w2 @ pre2"
          by blast
        with p(1) es(1) show ?thesis by auto
      qed
    qed
  qed
qed

lemma Start_loop_running:
  "Start_loop (Suc n) controller w = None \<Longrightarrow>
     \<exists>pre. trace (Start_loop_reached (Suc n) controller w) = trace w @ pre @ [Select TimerFired]"
proof (induction n arbitrary: w)
  case 0
  obtain r w1 where s: "solve controller w = (r, w1)"
    by (cases "solve controller w")
  from solve_world [OF s] obtain es where
    es: "trace w1 = trace w @ Log DebugLevel ''solving'' (DataText []) # es"
    by blast
  show ?case
  proof (cases r)
    case (Some e)
    with s "0.prems" show ?thesis
      by (simp add: Start_loop_error del: Start_loop.simps)
  next
    case None
    obtain k s2 where sel: "ctx_select (clients controller) (ext w1) = (k, s2)"
      by (cases "ctx_select (clients controller) (ext w1)")
    show ?thesis
    proof (cases k)
      case CtxDone
      with s None sel "0.prems" show ?thesis
        by (simp add: Start_loop_cancelled del: Start_loop.simps)
    next
      case TimerFired
      with s None sel have "Start_loop_reached (Suc 0) controller w
          = \<lparr>ext = s2, trace = trace w1 @ [Select TimerFired]\<rparr>"
        using reached_again [of controller w w1 s2 0] by simp
      with es have "trace (Start_loop_reached (Suc 0) controller w)
          = trace w @ (Log DebugLevel ''solving'' (DataText []) # es) @ [Select TimerFired]"
        by simp
      then show ?thesis by blast
    qed
  qed
next
  case (Suc n)
  obtain r w1 where s: "solve controller w = (r, w1)"
    by (cases "solve controller w")
  from solve_world [OF s] obtain es where
    es: "trace w1 = trace w @ Log DebugLevel ''solving'' (DataText []) # es"
    by blast
  show ?case
  proof (cases r)
    case (Some e)
    with s Suc.prems show ?thesis
      by (simp add: Start_loop_error del: Start_loop.simps)
  next
    case None
    obtain k s2 where sel: "ctx_select (clients controller) (ext w1) = (k, s2)"
      by (cases "ctx_select (clients controller) (ext w1)")
    show ?thesis
    proof (cases k)
      case CtxDone
      with s None sel Suc.prems show ?thesis
        by (simp add: Start_loop_cancelled del: Start_loop.simps)
    next
      case TimerFired
      let ?w2 = "\<lparr>ext = s2, trace = trace w1 @ [Select TimerFired]\<rparr>"
      from s None sel TimerFired Suc.prems have "Start_loop (Suc n) controller ?w2 = None"
        by (simp add: Start_loop_again del: Start_loop.simps)
      from Suc.IH [OF this] obtain pre where
        "trace (Start_loop_reached (Suc n) controller ?w2) = trace ?w2 @ pre @ [Select TimerFired]"
        by blast
      moreover from s None sel TimerFired have
        "Start_loop_reached (Suc (Suc n)) controller w = Start_loop_reached (Suc n) controller ?w2"
        by (simp add: reached_again del: Start_loop_reached.simps)
      ultimately have "trace (Start_loop_reached (Suc (Suc n)) controller w)
          = trace w @ ((Log DebugLevel ''solving'' (DataText []) # es) @ Select TimerFired # pre)
              @ [Select TimerFired]"
        using es by simp
      then show ?thesis by blast
    qed
  qed
qed

lemma Start_loop_error_any_select:
  "\<forall>e w1 f. solve controller w = (Some e, w1) \<longrightarrow>
       Start_loop (Suc n) (controller\<lparr>clients := (clients controller)\<lparr>ctx_select := f\<rparr>\<rparr>) w =
         Some (Returns (w1\<lparr>trace := trace w1 @
            [Log ErrorLevel ''error solving'' (DataError e), ChanSend e]\<rparr>))"
proof (intro allI impI)
  fix e w1 f
  assume "solve controller w = (Some e, w1)"
  then have "solve (controller\<lparr>clients := (clients controller)\<lparr>ctx_select := f\<rparr>\<rparr>) w = (Some e, w1)"
    by (simp add: solve_select)
  then show "Start_loop (Suc n) (controller\<lparr>clients := (clients controller)\<lparr>ctx_select := f\<rparr>\<rparr>) w =
         Some (Returns (w1\<lparr>trace := trace w1 @
            [Log ErrorLevel ''error solving'' (DataError e), ChanSend e]\<rparr>))"
    by (rule Start_loop_error)
qed

subsection \<open>The scenarios of the loop, run\<close>

lemmas scenario_defs =
  solve_def agreeToDeals_def ensureResourceOffers_def call_def getResourceOffer_def builtFor_def
  Info_def Debug_def Error_log_def logWithCaller_def emit_def selectWake_def chanSend_def
  quiet_def provider_def

lemma flaky_solve:
  "solve flaky \<lparr>ext = 0, trace = t\<rparr> = (None, \<lparr>ext = 0, trace = t @ cycleOfProvider flaky\<rparr>)"
  by (simp add: scenario_defs flaky_def cycleOfProvider_def)

lemma flaky_solve_fails:
  "solve flaky \<lparr>ext = Suc 0, trace = t\<rparr> =
     (Some (Error ''solver unreachable''),
      \<lparr>ext = Suc 0, trace = t @
        [Log DebugLevel ''solving'' (DataText []),
         GetDealsCall \<lparr>dq_ResourceProvider = ''0xRP'', dq_State = ''DealNegotiating''\<rparr> ([], None),
         GetResourceOffersCall \<lparr>roq_ResourceProvider = ''0xRP'', roq_Active = True\<rparr>
           ([], Some (Error ''solver unreachable''))]\<rparr>)"
  by (simp add: scenario_defs flaky_def)

lemma flaky_select:
  "ctx_select (clients flaky) s = (if s < 1 then TimerFired else CtxDone, Suc s)"
  by (simp add: flaky_def quiet_def)

lemma dealsDown_agree:
  "agreeToDeals dealsDown (Debug ''solving'' (DataText []) world0) =
     (Some (Error ''deals query failed''),
      \<lparr>ext = 0, trace =
        [Log DebugLevel ''solving'' (DataText []),
         GetDealsCall \<lparr>dq_ResourceProvider = ''0xRP'', dq_State = ''DealNegotiating''\<rparr>
           ([], Some (Error ''deals query failed''))]\<rparr>)"
  by (simp add: scenario_defs dealsDown_def world0_def)

lemma flaky_agree:
  "agreeToDeals flaky (Debug ''solving'' (DataText []) world0) =
     (None,
      \<lparr>ext = 0, trace =
        [Log DebugLevel ''solving'' (DataText []),
         GetDealsCall \<lparr>dq_ResourceProvider = ''0xRP'', dq_State = ''DealNegotiating''\<rparr>
           ([], None)]\<rparr>)"
  by (simp add: scenario_defs flaky_def world0_def)

lemma flaky_loop:
  "Start_loop (Suc (Suc 0)) flaky \<lparr>ext = 0, trace = t\<rparr> =
     Some (Returns \<lparr>ext = Suc 0, trace =
        t @ cycleOfProvider flaky @ Select TimerFired # failedCycle @
        [Log ErrorLevel ''error solving'' (DataError (Error ''solver unreachable'')),
         ChanSend (Error ''solver unreachable'')]\<rparr>)"
  by (simp add: flaky_solve flaky_solve_fails flaky_select call_def selectWake_def
        chanSend_def Error_log_def logWithCaller_def emit_def failedCycle_def)

lemma provider_solve:
  "solve provider \<lparr>ext = s, trace = t\<rparr> = (None, \<lparr>ext = s, trace = t @ cycleOfProvider provider\<rparr>)"
  by (simp add: scenario_defs cycleOfProvider_def)

lemma provider_select:
  "ctx_select (clients provider) s = (if s < 1 then TimerFired else CtxDone, Suc s)"
  by (simp add: provider_def quiet_def)

lemma provider_loop:
  "Start_loop (Suc (Suc 0)) provider \<lparr>ext = 0, trace = t\<rparr> =
     Some (Returns \<lparr>ext = Suc (Suc 0), trace =
        t @ cycleOfProvider provider @ Select TimerFired # cycleOfProvider provider
          @ [Select CtxDone]\<rparr>)"
  by (simp add: provider_solve provider_select call_def selectWake_def)

lemma flaky_setup:
  "Start_setup flaky world0 = Returns \<lparr>ext = 0, trace = setupActions\<rparr>"
  by (simp add: Start_setup_world flaky_def provider_def quiet_def world0_def setupActions_def)

lemma cancelledDown_setup:
  "Start_setup cancelledDown world0 = Returns \<lparr>ext = 0, trace = setupActions\<rparr>"
  by (simp add: Start_setup_world cancelledDown_def provider_def quiet_def world0_def setupActions_def)

lemma cancelledDown_solve:
  "solve cancelledDown \<lparr>ext = 0, trace = t\<rparr> =
     (Some (Error ''deals query failed''),
      \<lparr>ext = 0, trace = t @
        [Log DebugLevel ''solving'' (DataText []),
         GetDealsCall \<lparr>dq_ResourceProvider = ''0xRP'', dq_State = ''DealNegotiating''\<rparr>
           ([], Some (Error ''deals query failed''))]\<rparr>)"
  by (simp add: scenario_defs cancelledDown_def)

lemma cancelledDown_run:
  "Start (Suc 0) cancelledDown world0 =
     Some (Returns \<lparr>ext = 0, trace = setupActions @
        [Log DebugLevel ''solving'' (DataText []),
         GetDealsCall \<lparr>dq_ResourceProvider = ''0xRP'', dq_State = ''DealNegotiating''\<rparr>
           ([], Some (Error ''deals query failed'')),
         Log ErrorLevel ''error solving'' (DataError (Error ''deals query failed'')),
         ChanSend (Error ''deals query failed'')]\<rparr>)"
  by (simp add: Start_def cancelledDown_setup cancelledDown_solve chanSend_def Error_log_def
        logWithCaller_def emit_def)

lemma steady_setup:
  "Start_setup steady world0 = Returns \<lparr>ext = 0, trace = setupActions\<rparr>"
  by (simp add: Start_setup_world steady_def provider_def quiet_def world0_def setupActions_def)

lemma steady_solve:
  "solve steady \<lparr>ext = s, trace = t\<rparr> = (None, \<lparr>ext = s, trace = t @ cycleOfProvider steady\<rparr>)"
  by (simp add: scenario_defs steady_def cycleOfProvider_def)

lemma steady_select: "ctx_select (clients steady) s = (TimerFired, Suc s)"
  by (simp add: steady_def quiet_def)

lemma steady_loop: "Start_loop n steady \<lparr>ext = s, trace = t\<rparr> = None"
  by (induction n arbitrary: s t) (simp_all add: steady_solve steady_select selectWake_world)

lemma steady_reached:
  "Start_loop_reached (Suc (Suc 0)) steady \<lparr>ext = 0, trace = t\<rparr> =
     \<lparr>ext = Suc (Suc 0), trace =
        t @ cycleOfProvider steady @ Select TimerFired # cycleOfProvider steady
          @ [Select TimerFired]\<rparr>"
  by (simp add: steady_solve steady_select selectWake_world)

lemma cancelled_setup:
  "Start_setup cancelled world0 = Returns \<lparr>ext = 0, trace = setupActions\<rparr>"
  by (simp add: Start_setup_world cancelled_def provider_def quiet_def world0_def setupActions_def)

lemma cancelled_solve:
  "solve cancelled \<lparr>ext = s, trace = t\<rparr> = (None, \<lparr>ext = s, trace = t @ cycleOfProvider cancelled\<rparr>)"
  by (simp add: scenario_defs cancelled_def cycleOfProvider_def)

lemma cancelled_select: "ctx_select (clients cancelled) s = (CtxDone, s)"
  by (simp add: cancelled_def quiet_def)

lemma dealsDown_setup:
  "Start_setup dealsDown world0 = Returns \<lparr>ext = 0, trace = setupActions\<rparr>"
  by (simp add: Start_setup_world dealsDown_def provider_def quiet_def world0_def setupActions_def)

lemma dealsDown_solve:
  "solve dealsDown \<lparr>ext = 0, trace = t\<rparr> =
     (Some (Error ''deals query failed''),
      \<lparr>ext = 0, trace = t @
        [Log DebugLevel ''solving'' (DataText []),
         GetDealsCall \<lparr>dq_ResourceProvider = ''0xRP'', dq_State = ''DealNegotiating''\<rparr>
           ([], Some (Error ''deals query failed''))]\<rparr>)"
  by (simp add: scenario_defs dealsDown_def)

subsection \<open>The loop: the claims\<close>

text \<open>
  C2. In a cycle \<open>agreeToDeals\<close> runs first. When it fails, the cycle ends with its error
  and consists of the debug entry and the failed query alone: \<open>ensureResourceOffers\<close> has
  not run. When it succeeds, \<open>ensureResourceOffers\<close> runs from the world it left, and the
  cycle's result is its result. When a cycle fails, the loop logs the error, sends it on the
  channel and returns, whatever fuel is left: the failed cycle is not run again and no other
  cycle is started. In every run of the loop that has ended, either no value was sent on the
  channel, or exactly one was: the error of the last cycle, sent as the last action of the
  run.
\<close>

theorem Start_loop_fail_fast:
  "(\<forall>e w1. agreeToDeals controller (Debug ''solving'' (DataText []) w) = (Some e, w1) \<longrightarrow>
       solve controller w = (Some e, w1)
       \<and> (\<exists>deals. since w w1 = [Log DebugLevel ''solving'' (DataText []),
                                   GetDealsCall (dealsQuery controller) (deals, Some e)]))
   \<and> (\<forall>w1. agreeToDeals controller (Debug ''solving'' (DataText []) w) = (None, w1) \<longrightarrow>
       solve controller w = ensureResourceOffers controller w1)
   \<and> (\<forall>e w1. solve controller w = (Some e, w1) \<longrightarrow>
       Start_loop (Suc n) controller w =
         Some (Returns (w1\<lparr>trace := trace w1 @
            [Log ErrorLevel ''error solving'' (DataError e), ChanSend e]\<rparr>)))
   \<and> (\<forall>out. Start_loop n controller w = Some out \<longrightarrow>
         errorChan (since w (world_of out)) = []
       \<or> (\<exists>pre e w0 w1. solve controller w0 = (Some e, w1) \<and> trace w1 = trace w @ pre
            \<and> errorChan pre = []
            \<and> since w (world_of out)
                = pre @ [Log ErrorLevel ''error solving'' (DataError e), ChanSend e]))"
proof (intro conjI allI impI)
  fix e w1
  assume a: "agreeToDeals controller (Debug ''solving'' (DataText []) w) = (Some e, w1)"
  then show "solve controller w = (Some e, w1)"
    by (simp add: solve_def)
  from agreeToDeals_error [OF a] obtain deals where
    "since (Debug ''solving'' (DataText []) w) w1
       = [GetDealsCall (dealsQuery controller) (deals, Some e)]"
    by blast
  moreover from agreeToDeals_actions [OF a] obtain es where
    "trace w1 = trace (Debug ''solving'' (DataText []) w) @ es"
    by blast
  ultimately have "since w w1 = [Log DebugLevel ''solving'' (DataText []),
                                   GetDealsCall (dealsQuery controller) (deals, Some e)]"
    by (simp add: since_def trace_log)
  then show "\<exists>deals. since w w1 = [Log DebugLevel ''solving'' (DataText []),
                                   GetDealsCall (dealsQuery controller) (deals, Some e)]"
    by blast
next
  fix w1
  assume "agreeToDeals controller (Debug ''solving'' (DataText []) w) = (None, w1)"
  then show "solve controller w = ensureResourceOffers controller w1"
    by (rule solve_after_agree)
next
  fix e w1
  assume "solve controller w = (Some e, w1)"
  then show "Start_loop (Suc n) controller w =
         Some (Returns (w1\<lparr>trace := trace w1 @
            [Log ErrorLevel ''error solving'' (DataError e), ChanSend e]\<rparr>))"
    by (rule Start_loop_error)
next
  fix out
  assume "Start_loop n controller w = Some out"
  from Start_loop_end [OF this] obtain pre w0 w1 r where
    e: "solve controller w0 = (r, w1)" "trace w1 = trace w @ pre" "errorChan pre = []"
       "(\<exists>e. r = Some e \<and> out = Returns (w1\<lparr>trace := trace w1 @
                  [Log ErrorLevel ''error solving'' (DataError e), ChanSend e]\<rparr>))
          \<or> (r = None \<and> (\<exists>s. ctx_select (clients controller) (ext w1) = (CtxDone, s)
                \<and> out = Returns \<lparr>ext = s, trace = trace w1 @ [Select CtxDone]\<rparr>))"
    by blast
  from e(4) show "errorChan (since w (world_of out)) = []
       \<or> (\<exists>pre e w0 w1. solve controller w0 = (Some e, w1) \<and> trace w1 = trace w @ pre
            \<and> errorChan pre = []
            \<and> since w (world_of out)
                = pre @ [Log ErrorLevel ''error solving'' (DataError e), ChanSend e])"
  proof (elim disjE exE conjE)
    fix err
    assume "r = Some err" "out = Returns (w1\<lparr>trace := trace w1 @
                  [Log ErrorLevel ''error solving'' (DataError err), ChanSend err]\<rparr>)"
    with e(1-3) have "solve controller w0 = (Some err, w1) \<and> trace w1 = trace w @ pre
            \<and> errorChan pre = []
            \<and> since w (world_of out)
                = pre @ [Log ErrorLevel ''error solving'' (DataError err), ChanSend err]"
      by (simp add: since_def)
    then show ?thesis by blast
  next
    fix s
    assume "out = Returns \<lparr>ext = s, trace = trace w1 @ [Select CtxDone]\<rparr>"
    with e(2,3) have "errorChan (since w (world_of out)) = []"
      by (simp add: since_def errorChan_simps)
    then show ?thesis by blast
  qed
qed

theorem Start_loop_fail_fast_witness:
  "solve dealsDown world0 =
     (Some (Error ''deals query failed''),
      \<lparr>ext = 0, trace =
        [Log DebugLevel ''solving'' (DataText []),
         GetDealsCall \<lparr>dq_ResourceProvider = ''0xRP'', dq_State = ''DealNegotiating''\<rparr>
           ([], Some (Error ''deals query failed''))]\<rparr>)
   \<and> Start_loop (Suc 0) dealsDown world0 =
       Some (Returns \<lparr>ext = 0, trace =
        [Log DebugLevel ''solving'' (DataText []),
         GetDealsCall \<lparr>dq_ResourceProvider = ''0xRP'', dq_State = ''DealNegotiating''\<rparr>
           ([], Some (Error ''deals query failed'')),
         Log ErrorLevel ''error solving'' (DataError (Error ''deals query failed'')),
         ChanSend (Error ''deals query failed'')]\<rparr>)
   \<and> solve flaky world0 =
       ensureResourceOffers flaky
         \<lparr>ext = 0, trace =
           [Log DebugLevel ''solving'' (DataText []),
            GetDealsCall \<lparr>dq_ResourceProvider = ''0xRP'', dq_State = ''DealNegotiating''\<rparr>
              ([], None)]\<rparr>
   \<and> errorChan (since world0 (world_of (the (Start_loop (Suc (Suc 0)) flaky world0))))
       = [Error ''solver unreachable'']
   \<and> (\<exists>pre e w0 w1. solve flaky w0 = (Some e, w1) \<and> trace w1 = trace world0 @ pre
         \<and> errorChan pre = []
         \<and> since world0 (world_of (the (Start_loop (Suc (Suc 0)) flaky world0)))
             = pre @ [Log ErrorLevel ''error solving'' (DataError e), ChanSend e])"
proof -
  note down = Start_loop_fail_fast [of dealsDown world0 0]
  note flak = Start_loop_fail_fast [of flaky world0 "Suc (Suc 0)"]
  let ?wd = "\<lparr>ext = 0, trace =
        [Log DebugLevel ''solving'' (DataText []),
         GetDealsCall \<lparr>dq_ResourceProvider = ''0xRP'', dq_State = ''DealNegotiating''\<rparr>
           ([], Some (Error ''deals query failed''))]\<rparr> :: (string, nat) world"
  from down dealsDown_agree have s: "solve dealsDown world0 = (Some (Error ''deals query failed''), ?wd)"
    by blast
  with down have "Start_loop (Suc 0) dealsDown world0 =
         Some (Returns (?wd\<lparr>trace := trace ?wd @
            [Log ErrorLevel ''error solving'' (DataError (Error ''deals query failed'')),
             ChanSend (Error ''deals query failed'')]\<rparr>))"
    by blast
  then have l: "Start_loop (Suc 0) dealsDown world0 =
       Some (Returns \<lparr>ext = 0, trace =
        [Log DebugLevel ''solving'' (DataText []),
         GetDealsCall \<lparr>dq_ResourceProvider = ''0xRP'', dq_State = ''DealNegotiating''\<rparr>
           ([], Some (Error ''deals query failed'')),
         Log ErrorLevel ''error solving'' (DataError (Error ''deals query failed'')),
         ChanSend (Error ''deals query failed'')]\<rparr>)"
    by (simp del: Start_loop.simps)
  from flak flaky_agree have f: "solve flaky world0 =
       ensureResourceOffers flaky
         \<lparr>ext = 0, trace =
           [Log DebugLevel ''solving'' (DataText []),
            GetDealsCall \<lparr>dq_ResourceProvider = ''0xRP'', dq_State = ''DealNegotiating''\<rparr>
              ([], None)]\<rparr>"
    by blast
  have run: "Start_loop (Suc (Suc 0)) flaky world0
      = Some (the (Start_loop (Suc (Suc 0)) flaky world0))"
    unfolding world0_def flaky_loop by simp
  have sent: "errorChan (since world0 (world_of (the (Start_loop (Suc (Suc 0)) flaky world0))))
       = [Error ''solver unreachable'']"
    unfolding world0_def flaky_loop
    by (simp add: since_def errorChan_def cycleOfProvider_def failedCycle_def)
  from flak run sent have "\<exists>pre e w0 w1. solve flaky w0 = (Some e, w1) \<and> trace w1 = trace world0 @ pre
         \<and> errorChan pre = []
         \<and> since world0 (world_of (the (Start_loop (Suc (Suc 0)) flaky world0)))
             = pre @ [Log ErrorLevel ''error solving'' (DataError e), ChanSend e]"
    by (metis list.distinct(1))
  with s l f sent show ?thesis by blast
qed

text \<open>
  C6, as amended. When the \<open>select\<close> after a successful cycle sees the cancellation, the
  loop returns at once. In every run that has ended, a \<open>select\<close> that saw the cancellation
  is the last action of the run, no value was sent on the error channel in that run, and the
  trace before it is the trace at the end of a completed, successful cycle: the cancellation
  is seen only between cycles, also when it happened during the sleep. A cycle does not look
  at the context: \<open>solve\<close> is the same function whatever the \<open>select\<close> would answer, so a
  cycle that has begun runs to its end. When that cycle fails, its error is logged and sent
  on the channel and the loop returns, whatever the \<open>select\<close> would have answered: a
  cancellation that has happened meanwhile is not looked at.
\<close>

theorem Start_loop_cancellation:
  "(\<forall>w1 s. solve controller w = (None, w1) \<and> ctx_select (clients controller) (ext w1) = (CtxDone, s)
       \<longrightarrow> Start_loop (Suc n) controller w
             = Some (Returns \<lparr>ext = s, trace = trace w1 @ [Select CtxDone]\<rparr>))
   \<and> (\<forall>out pre post. Start_loop n controller w = Some out
         \<and> since w (world_of out) = pre @ Select CtxDone # post \<longrightarrow>
       post = [] \<and> errorChan (since w (world_of out)) = []
       \<and> (\<exists>w0 w1. solve controller w0 = (None, w1) \<and> trace w1 = trace w @ pre))
   \<and> (\<forall>f. solve (controller\<lparr>clients := (clients controller)\<lparr>ctx_select := f\<rparr>\<rparr>) w
            = solve controller w)
   \<and> (\<forall>e w1 f. solve controller w = (Some e, w1) \<longrightarrow>
       Start_loop (Suc n) (controller\<lparr>clients := (clients controller)\<lparr>ctx_select := f\<rparr>\<rparr>) w =
         Some (Returns (w1\<lparr>trace := trace w1 @
            [Log ErrorLevel ''error solving'' (DataError e), ChanSend e]\<rparr>)))"
proof (intro conjI)
  show "\<forall>w1 s. solve controller w = (None, w1)
          \<and> ctx_select (clients controller) (ext w1) = (CtxDone, s)
       \<longrightarrow> Start_loop (Suc n) controller w
             = Some (Returns \<lparr>ext = s, trace = trace w1 @ [Select CtxDone]\<rparr>)"
    by (simp add: Start_loop_cancelled del: Start_loop.simps)
next
  show "\<forall>out pre post. Start_loop n controller w = Some out
         \<and> since w (world_of out) = pre @ Select CtxDone # post \<longrightarrow>
       post = [] \<and> errorChan (since w (world_of out)) = []
       \<and> (\<exists>w0 w1. solve controller w0 = (None, w1) \<and> trace w1 = trace w @ pre)"
  proof (intro allI impI)
    fix out pre post
    assume a: "Start_loop n controller w = Some out
           \<and> since w (world_of out) = pre @ Select CtxDone # post"
    then have run: "Start_loop n controller w = Some out"
      by simp
    from Start_loop_end [OF run] obtain pre' wa wb r where
      e: "solve controller wa = (r, wb)" "trace wb = trace w @ pre'" "errorChan pre' = []"
         "(\<exists>e. r = Some e \<and> out = Returns (wb\<lparr>trace := trace wb @
                    [Log ErrorLevel ''error solving'' (DataError e), ChanSend e]\<rparr>))
            \<or> (r = None \<and> (\<exists>s. ctx_select (clients controller) (ext wb) = (CtxDone, s)
                  \<and> out = Returns \<lparr>ext = s, trace = trace wb @ [Select CtxDone]\<rparr>))"
      by blast
    from e(2,4) obtain ps where "trace (world_of out) = trace w @ ps"
      by auto
    with a have t: "trace (world_of out) = trace w @ pre @ Select CtxDone # post"
      by (simp add: since_def)
    from Start_loop_select [OF run t] have
      s: "\<exists>w0 w1. solve controller w0 = (None, w1) \<and> trace w1 = trace w @ pre" and p: "post = []"
      by auto
    from e(4) have "errorChan (since w (world_of out)) = []"
    proof (elim disjE exE conjE)
      fix err
      assume "out = Returns (wb\<lparr>trace := trace wb @
                    [Log ErrorLevel ''error solving'' (DataError err), ChanSend err]\<rparr>)"
      with e(2) t p have "pre' @ [Log ErrorLevel ''error solving'' (DataError err), ChanSend err]
          = pre @ [Select CtxDone]"
        by simp
      then show ?thesis by (simp add: append_eq_append_conv2 Cons_eq_append_conv)
    next
      fix s
      assume "out = Returns \<lparr>ext = s, trace = trace wb @ [Select CtxDone]\<rparr>"
      with e(2,3) show ?thesis
        by (simp add: since_def errorChan_simps)
    qed
    with s p show "post = [] \<and> errorChan (since w (world_of out)) = []
         \<and> (\<exists>w0 w1. solve controller w0 = (None, w1) \<and> trace w1 = trace w @ pre)"
      by blast
  qed
next
  show "\<forall>f. solve (controller\<lparr>clients := (clients controller)\<lparr>ctx_select := f\<rparr>\<rparr>) w
            = solve controller w"
    by (simp add: solve_select)
next
  show "\<forall>e w1 f. solve controller w = (Some e, w1) \<longrightarrow>
       Start_loop (Suc n) (controller\<lparr>clients := (clients controller)\<lparr>ctx_select := f\<rparr>\<rparr>) w =
         Some (Returns (w1\<lparr>trace := trace w1 @
            [Log ErrorLevel ''error solving'' (DataError e), ChanSend e]\<rparr>))"
    by (rule Start_loop_error_any_select)
qed

theorem Start_loop_cancellation_witness:
  "Start_loop (Suc 0) provider \<lparr>ext = Suc 0, trace = []\<rparr>
     = Some (Returns \<lparr>ext = Suc (Suc 0), trace = cycleOfProvider provider @ [Select CtxDone]\<rparr>)
   \<and> since world0 (world_of (the (Start_loop (Suc (Suc 0)) provider world0)))
       = (cycleOfProvider provider @ Select TimerFired # cycleOfProvider provider)
           @ Select CtxDone # []
   \<and> errorChan (since world0 (world_of (the (Start_loop (Suc (Suc 0)) provider world0)))) = []
   \<and> (\<exists>w0 w1. solve provider w0 = (None, w1)
         \<and> trace w1 = trace world0
              @ (cycleOfProvider provider @ Select TimerFired # cycleOfProvider provider))
   \<and> solve (provider\<lparr>clients := (clients provider)\<lparr>ctx_select := (\<lambda>s. (CtxDone, s))\<rparr>\<rparr>) world0
       = solve provider world0
   \<and> Start_loop (Suc 0)
        (dealsDown\<lparr>clients := (clients dealsDown)\<lparr>ctx_select := (\<lambda>s. (CtxDone, s))\<rparr>\<rparr>)
        \<lparr>ext = 0, trace = []\<rparr> =
       Some (Returns \<lparr>ext = 0, trace =
          [Log DebugLevel ''solving'' (DataText []),
           GetDealsCall \<lparr>dq_ResourceProvider = ''0xRP'', dq_State = ''DealNegotiating''\<rparr>
             ([], Some (Error ''deals query failed'')),
           Log ErrorLevel ''error solving'' (DataError (Error ''deals query failed'')),
           ChanSend (Error ''deals query failed'')]\<rparr>)"
proof -
  note one = Start_loop_cancellation [of provider "\<lparr>ext = Suc 0, trace = []\<rparr>" 0]
  note fail = Start_loop_cancellation [of dealsDown "\<lparr>ext = 0, trace = []\<rparr>" 0]
  note two = Start_loop_cancellation [of provider world0 "Suc (Suc 0)"]
  have "solve provider \<lparr>ext = Suc 0, trace = []\<rparr>
          = (None, \<lparr>ext = Suc 0, trace = cycleOfProvider provider\<rparr>)
        \<and> ctx_select (clients provider) (ext \<lparr>ext = Suc 0, trace = cycleOfProvider provider\<rparr>)
          = (CtxDone, Suc (Suc 0))"
    by (simp add: provider_solve provider_select)
  with one have "Start_loop (Suc 0) provider \<lparr>ext = Suc 0, trace = []\<rparr>
     = Some (Returns \<lparr>ext = Suc (Suc 0),
          trace = trace \<lparr>ext = Suc 0, trace = cycleOfProvider provider\<rparr> @ [Select CtxDone]\<rparr>)"
    by blast
  then have a: "Start_loop (Suc 0) provider \<lparr>ext = Suc 0, trace = []\<rparr>
     = Some (Returns \<lparr>ext = Suc (Suc 0), trace = cycleOfProvider provider @ [Select CtxDone]\<rparr>)"
    by (simp del: Start_loop.simps)
  have run: "Start_loop (Suc (Suc 0)) provider world0
      = Some (the (Start_loop (Suc (Suc 0)) provider world0))"
    unfolding world0_def provider_loop by simp
  have t: "since world0 (world_of (the (Start_loop (Suc (Suc 0)) provider world0)))
       = (cycleOfProvider provider @ Select TimerFired # cycleOfProvider provider)
           @ Select CtxDone # []"
    unfolding world0_def provider_loop by (simp add: since_def)
  from two run t have b:
    "errorChan (since world0 (world_of (the (Start_loop (Suc (Suc 0)) provider world0)))) = []
     \<and> (\<exists>w0 w1. solve provider w0 = (None, w1)
         \<and> trace w1 = trace world0
              @ (cycleOfProvider provider @ Select TimerFired # cycleOfProvider provider))"
    by blast
  from two have c:
    "solve (provider\<lparr>clients := (clients provider)\<lparr>ctx_select := (\<lambda>s. (CtxDone, s))\<rparr>\<rparr>) world0
       = solve provider world0"
    by blast
  from fail [THEN conjunct2, THEN conjunct2, THEN conjunct2, rule_format,
             OF dealsDown_solve [of "[]"], of "\<lambda>s. (CtxDone, s)"]
  have d: "Start_loop (Suc 0)
        (dealsDown\<lparr>clients := (clients dealsDown)\<lparr>ctx_select := (\<lambda>s. (CtxDone, s))\<rparr>\<rparr>)
        \<lparr>ext = 0, trace = []\<rparr> =
       Some (Returns \<lparr>ext = 0, trace =
          [Log DebugLevel ''solving'' (DataText []),
           GetDealsCall \<lparr>dq_ResourceProvider = ''0xRP'', dq_State = ''DealNegotiating''\<rparr>
             ([], Some (Error ''deals query failed'')),
           Log ErrorLevel ''error solving'' (DataError (Error ''deals query failed'')),
           ChanSend (Error ''deals query failed'')]\<rparr>)"
    by (simp del: Start_loop.simps)
  from a t b c d show ?thesis by blast
qed

text \<open>
  C6 as the spec states it fails: with a context that is cancelled from the start and a
  solver whose query of the deals fails, the first cycle runs to its end, fails, and the loop
  sends the error on the channel and returns; no \<open>select\<close> is reached, and a value has been
  emitted on the error channel although the cancellation had fired.
\<close>

theorem Start_loop_cancellation_counterexample:
  "ctx_select (clients cancelledDown) (ext world0) = (CtxDone, ext world0)
   \<and> Start (Suc 0) cancelledDown world0 =
       Some (Returns \<lparr>ext = 0, trace = setupActions @
          [Log DebugLevel ''solving'' (DataText []),
           GetDealsCall \<lparr>dq_ResourceProvider = ''0xRP'', dq_State = ''DealNegotiating''\<rparr>
             ([], Some (Error ''deals query failed'')),
           Log ErrorLevel ''error solving'' (DataError (Error ''deals query failed'')),
           ChanSend (Error ''deals query failed'')]\<rparr>)
   \<and> errorChan (since world0 (world_of (the (Start (Suc 0) cancelledDown world0))))
       = [Error ''deals query failed'']
   \<and> errorChan (since world0 (world_of (the (Start (Suc 0) cancelledDown world0)))) \<noteq> []"
proof -
  have "ctx_select (clients cancelledDown) (ext world0) = (CtxDone, ext world0)"
    by (simp add: cancelledDown_def quiet_def)
  moreover have "errorChan (since world0 (world_of (the (Start (Suc 0) cancelledDown world0))))
       = [Error ''deals query failed'']"
    unfolding cancelledDown_run
    by (simp add: since_def trace_world0 errorChan_def setupActions_def)
  ultimately show ?thesis
    using cancelledDown_run by simp
qed

text \<open>
  C10. When the setup of \<open>Start\<close> succeeds, it has done its four steps and nothing else; the
  goroutine then begins with a cycle, whose first action is the debug entry of \<open>solve\<close> and
  which holds no \<open>select\<close>. In every run that has ended, the first action after the setup
  is that debug entry, and the trace before any \<open>select\<close> of the run is the trace at the
  end of a completed, successful cycle: the wait comes after a cycle, never before the first.

  The same holds without asking that the run ends. With any fuel to run one cycle or more,
  \<open>Start\<close> first runs \<open>solve\<close> in the world the setup left: when that cycle fails, the run
  ends with the error and no \<open>select\<close>; when it succeeds, the first \<open>select\<close> is made in
  the world at the end of that cycle, and the run ends there or goes on from there. In the
  world the goroutine has reached with any such fuel, ended or not, the first action after the
  setup is the debug entry of the first cycle and the trace before any \<open>select\<close> is the
  trace at the end of a completed, successful cycle. That world is the one a run that has
  ended returns, and in a run that is still going it ends with the sleep after a cycle.
\<close>

theorem Start_first_cycle_immediately:
  assumes "Start_setup controller w0 = Returns w"
  shows "since w0 w = [SubscribeEvents, SubscribeDealStateChange, SolverClientStart None,
                       Web3EventsStart None]
       \<and> (\<forall>r w1. solve controller w = (r, w1) \<longrightarrow>
             (\<exists>es. since w w1 = Log DebugLevel ''solving'' (DataText []) # es
                \<and> (\<forall>k. Select k \<notin> set es)))
       \<and> (\<forall>n out. Start n controller w0 = Some out \<longrightarrow>
             (\<exists>rest. since w (world_of out) = Log DebugLevel ''solving'' (DataText []) # rest)
           \<and> (\<forall>pre k post. since w (world_of out) = pre @ Select k # post \<longrightarrow>
                (\<exists>wa wb. solve controller wa = (None, wb) \<and> trace wb = trace w @ pre)))
       \<and> (\<forall>n e w1. solve controller w = (Some e, w1) \<longrightarrow>
             Start (Suc n) controller w0 =
               Some (Returns (w1\<lparr>trace := trace w1 @
                  [Log ErrorLevel ''error solving'' (DataError e), ChanSend e]\<rparr>)))
       \<and> (\<forall>n w1 s. solve controller w = (None, w1)
               \<and> ctx_select (clients controller) (ext w1) = (CtxDone, s) \<longrightarrow>
             Start (Suc n) controller w0 =
               Some (Returns \<lparr>ext = s, trace = trace w1 @ [Select CtxDone]\<rparr>))
       \<and> (\<forall>n w1 s. solve controller w = (None, w1)
               \<and> ctx_select (clients controller) (ext w1) = (TimerFired, s) \<longrightarrow>
             Start (Suc n) controller w0 =
               Start_loop n controller \<lparr>ext = s, trace = trace w1 @ [Select TimerFired]\<rparr>)
       \<and> (\<forall>n. (\<exists>rest. since w (Start_loop_reached (Suc n) controller w)
                         = Log DebugLevel ''solving'' (DataText []) # rest)
              \<and> (\<forall>pre k post. since w (Start_loop_reached (Suc n) controller w)
                                  = pre @ Select k # post \<longrightarrow>
                   (\<exists>wa wb. solve controller wa = (None, wb) \<and> trace wb = trace w @ pre)))
       \<and> (\<forall>n out. Start n controller w0 = Some out \<longrightarrow>
             world_of out = Start_loop_reached n controller w)
       \<and> (\<forall>n. Start (Suc n) controller w0 = None \<longrightarrow>
             (\<exists>pre. since w (Start_loop_reached (Suc n) controller w)
                      = pre @ [Select TimerFired]))"
proof -
  have st: "Start n controller w0 = Start_loop n controller w" for n
    using assms by (simp add: Start_def)
  have c1: "since w0 w = [SubscribeEvents, SubscribeDealStateChange, SolverClientStart None,
                       Web3EventsStart None]"
    using assms
    by (auto simp add: Start_setup_world since_def split: prod.splits option.splits)
  have c2: "\<forall>r w1. solve controller w = (r, w1) \<longrightarrow>
             (\<exists>es. since w w1 = Log DebugLevel ''solving'' (DataText []) # es
                \<and> (\<forall>k. Select k \<notin> set es))"
  proof (intro allI impI)
    fix r w1
    assume "solve controller w = (r, w1)"
    from solve_world [OF this] obtain es where
      "trace w1 = trace w @ Log DebugLevel ''solving'' (DataText []) # es" "list_all cycleAction es"
      by blast
    then have "since w w1 = Log DebugLevel ''solving'' (DataText []) # es \<and> (\<forall>k. Select k \<notin> set es)"
      by (simp add: since_def Select_cycle)
    then show "\<exists>es. since w w1 = Log DebugLevel ''solving'' (DataText []) # es
                \<and> (\<forall>k. Select k \<notin> set es)"
      by blast
  qed
  have c3: "\<forall>n out. Start n controller w0 = Some out \<longrightarrow>
             (\<exists>rest. since w (world_of out) = Log DebugLevel ''solving'' (DataText []) # rest)
           \<and> (\<forall>pre k post. since w (world_of out) = pre @ Select k # post \<longrightarrow>
                (\<exists>wa wb. solve controller wa = (None, wb) \<and> trace wb = trace w @ pre))"
  proof (intro allI impI)
    fix n out
    assume "Start n controller w0 = Some out"
    with st have run: "Start_loop n controller w = Some out"
      by simp
    have "\<exists>wa wb. solve controller wa = (None, wb) \<and> trace wb = trace w @ pre"
      if "since w (world_of out) = pre @ Select k # post" for pre k post
    proof -
      from that Start_loop_grows [OF run]
      have "trace (world_of out) = trace w @ pre @ Select k # post"
        by simp
      from Start_loop_select [OF run this] show ?thesis
        by blast
    qed
    with Start_loop_first [OF run]
    show "(\<exists>rest. since w (world_of out) = Log DebugLevel ''solving'' (DataText []) # rest)
           \<and> (\<forall>pre k post. since w (world_of out) = pre @ Select k # post \<longrightarrow>
                (\<exists>wa wb. solve controller wa = (None, wb) \<and> trace wb = trace w @ pre))"
      by blast
  qed
  have c4: "\<forall>n e w1. solve controller w = (Some e, w1) \<longrightarrow>
             Start (Suc n) controller w0 =
               Some (Returns (w1\<lparr>trace := trace w1 @
                  [Log ErrorLevel ''error solving'' (DataError e), ChanSend e]\<rparr>))"
    unfolding st by (simp add: Start_loop_error del: Start_loop.simps)
  have c5: "\<forall>n w1 s. solve controller w = (None, w1)
               \<and> ctx_select (clients controller) (ext w1) = (CtxDone, s) \<longrightarrow>
             Start (Suc n) controller w0 =
               Some (Returns \<lparr>ext = s, trace = trace w1 @ [Select CtxDone]\<rparr>)"
    unfolding st by (simp add: Start_loop_cancelled del: Start_loop.simps)
  have c6: "\<forall>n w1 s. solve controller w = (None, w1)
               \<and> ctx_select (clients controller) (ext w1) = (TimerFired, s) \<longrightarrow>
             Start (Suc n) controller w0 =
               Start_loop n controller \<lparr>ext = s, trace = trace w1 @ [Select TimerFired]\<rparr>"
    unfolding st by (simp add: Start_loop_again del: Start_loop.simps)
  have c7: "\<forall>n. (\<exists>rest. since w (Start_loop_reached (Suc n) controller w)
                         = Log DebugLevel ''solving'' (DataText []) # rest)
              \<and> (\<forall>pre k post. since w (Start_loop_reached (Suc n) controller w)
                                  = pre @ Select k # post \<longrightarrow>
                   (\<exists>wa wb. solve controller wa = (None, wb) \<and> trace wb = trace w @ pre))"
  proof (intro allI conjI impI)
    fix n
    show "\<exists>rest. since w (Start_loop_reached (Suc n) controller w)
                         = Log DebugLevel ''solving'' (DataText []) # rest"
      by (rule reached_first)
  next
    fix n pre k post
    assume a: "since w (Start_loop_reached (Suc n) controller w) = pre @ Select k # post"
    from reached_grows [of "Suc n" controller w] obtain ps where
      "trace (Start_loop_reached (Suc n) controller w) = trace w @ ps"
      by blast
    with a have "trace (Start_loop_reached (Suc n) controller w) = trace w @ pre @ Select k # post"
      by (simp add: since_def)
    then show "\<exists>wa wb. solve controller wa = (None, wb) \<and> trace wb = trace w @ pre"
      by (rule reached_select)
  qed
  have c8: "\<forall>n out. Start n controller w0 = Some out \<longrightarrow>
             world_of out = Start_loop_reached n controller w"
    unfolding st by (simp add: reached_of_loop)
  have c9: "\<forall>n. Start (Suc n) controller w0 = None \<longrightarrow>
             (\<exists>pre. since w (Start_loop_reached (Suc n) controller w)
                      = pre @ [Select TimerFired])"
  proof (intro allI impI)
    fix n
    assume "Start (Suc n) controller w0 = None"
    with st have "Start_loop (Suc n) controller w = None"
      by simp
    from Start_loop_running [OF this] obtain pre where
      "trace (Start_loop_reached (Suc n) controller w) = trace w @ pre @ [Select TimerFired]"
      by blast
    then have "since w (Start_loop_reached (Suc n) controller w) = pre @ [Select TimerFired]"
      by (simp add: since_def)
    then show "\<exists>pre. since w (Start_loop_reached (Suc n) controller w)
                      = pre @ [Select TimerFired]"
      by blast
  qed
  from c1 c2 c3 c4 c5 c6 c7 c8 c9 show ?thesis
    by (intro conjI)
qed

theorem Start_first_cycle_immediately_witness:
  "Start_setup flaky world0 = Returns \<lparr>ext = 0, trace = setupActions\<rparr>
   \<and> since world0 \<lparr>ext = 0, trace = setupActions\<rparr> = setupActions
   \<and> since \<lparr>ext = 0, trace = setupActions\<rparr> (world_of (the (Start (Suc (Suc 0)) flaky world0)))
       = cycleOfProvider flaky @ Select TimerFired # failedCycle @
           [Log ErrorLevel ''error solving'' (DataError (Error ''solver unreachable'')),
            ChanSend (Error ''solver unreachable'')]
   \<and> (\<exists>rest. since \<lparr>ext = 0, trace = setupActions\<rparr>
                 (world_of (the (Start (Suc (Suc 0)) flaky world0)))
               = Log DebugLevel ''solving'' (DataText []) # rest)
   \<and> (\<exists>wa wb. solve flaky wa = (None, wb)
         \<and> trace wb = setupActions @ cycleOfProvider flaky)
   \<and> Start (Suc (Suc 0)) flaky world0 =
       Start_loop (Suc 0) flaky
         \<lparr>ext = Suc 0, trace = (setupActions @ cycleOfProvider flaky) @ [Select TimerFired]\<rparr>
   \<and> Start (Suc 0) dealsDown world0 =
       Some (Returns \<lparr>ext = 0, trace = setupActions @
          [Log DebugLevel ''solving'' (DataText []),
           GetDealsCall \<lparr>dq_ResourceProvider = ''0xRP'', dq_State = ''DealNegotiating''\<rparr>
             ([], Some (Error ''deals query failed'')),
           Log ErrorLevel ''error solving'' (DataError (Error ''deals query failed'')),
           ChanSend (Error ''deals query failed'')]\<rparr>)
   \<and> Start (Suc 0) cancelled world0 =
       Some (Returns \<lparr>ext = 0, trace = (setupActions @ cycleOfProvider cancelled) @ [Select CtxDone]\<rparr>)
   \<and> Start (Suc (Suc 0)) steady world0 = None
   \<and> since \<lparr>ext = 0, trace = setupActions\<rparr>
        (Start_loop_reached (Suc (Suc 0)) steady \<lparr>ext = 0, trace = setupActions\<rparr>)
       = (cycleOfProvider steady @ Select TimerFired # cycleOfProvider steady) @ [Select TimerFired]
   \<and> (\<exists>rest. since \<lparr>ext = 0, trace = setupActions\<rparr>
                 (Start_loop_reached (Suc (Suc 0)) steady \<lparr>ext = 0, trace = setupActions\<rparr>)
               = Log DebugLevel ''solving'' (DataText []) # rest)
   \<and> (\<exists>wa wb. solve steady wa = (None, wb)
         \<and> trace wb = setupActions @ cycleOfProvider steady @ Select TimerFired # cycleOfProvider steady)"
proof -
  note cyc = Start_first_cycle_immediately [OF flaky_setup]
  note down = Start_first_cycle_immediately [OF dealsDown_setup]
  note canc = Start_first_cycle_immediately [OF cancelled_setup]
  note stdy = Start_first_cycle_immediately [OF steady_setup]
  have st: "Start (Suc (Suc 0)) flaky world0
      = Start_loop (Suc (Suc 0)) flaky \<lparr>ext = 0, trace = setupActions\<rparr>"
    by (simp add: Start_def flaky_setup del: Start_loop.simps)
  have run: "Start (Suc (Suc 0)) flaky world0 = Some (the (Start (Suc (Suc 0)) flaky world0))"
    unfolding st flaky_loop by simp
  have t: "since \<lparr>ext = 0, trace = setupActions\<rparr> (world_of (the (Start (Suc (Suc 0)) flaky world0)))
       = cycleOfProvider flaky @ Select TimerFired # failedCycle @
           [Log ErrorLevel ''error solving'' (DataError (Error ''solver unreachable'')),
            ChanSend (Error ''solver unreachable'')]"
    unfolding st flaky_loop by (simp add: since_def)
  note runs = cyc [THEN conjunct2, THEN conjunct2, THEN conjunct1, rule_format, OF run]
  from cyc have a1: "since world0 \<lparr>ext = 0, trace = setupActions\<rparr> = setupActions"
    by (simp add: setupActions_def)
  from runs have a2: "\<exists>rest. since \<lparr>ext = 0, trace = setupActions\<rparr>
                 (world_of (the (Start (Suc (Suc 0)) flaky world0)))
               = Log DebugLevel ''solving'' (DataText []) # rest"
    by (rule conjunct1)
  have a3: "\<exists>wa wb. solve flaky wa = (None, wb)
         \<and> trace wb = setupActions @ cycleOfProvider flaky"
    using runs [THEN conjunct2, rule_format, OF t] by simp
  have "solve flaky \<lparr>ext = 0, trace = setupActions\<rparr>
          = (None, \<lparr>ext = 0, trace = setupActions @ cycleOfProvider flaky\<rparr>)
        \<and> ctx_select (clients flaky) (ext \<lparr>ext = 0, trace = setupActions @ cycleOfProvider flaky\<rparr>)
          = (TimerFired, Suc 0)"
    by (simp add: flaky_solve flaky_select)
  from cyc [THEN conjunct2, THEN conjunct2, THEN conjunct2, THEN conjunct2, THEN conjunct2,
            THEN conjunct1, rule_format, OF this, of "Suc 0"]
  have a4: "Start (Suc (Suc 0)) flaky world0 =
       Start_loop (Suc 0) flaky
         \<lparr>ext = Suc 0, trace = (setupActions @ cycleOfProvider flaky) @ [Select TimerFired]\<rparr>"
    by (simp del: Start_loop.simps)
  from down [THEN conjunct2, THEN conjunct2, THEN conjunct2, THEN conjunct1, rule_format,
             OF dealsDown_solve, of 0]
  have a5: "Start (Suc 0) dealsDown world0 =
       Some (Returns \<lparr>ext = 0, trace = setupActions @
          [Log DebugLevel ''solving'' (DataText []),
           GetDealsCall \<lparr>dq_ResourceProvider = ''0xRP'', dq_State = ''DealNegotiating''\<rparr>
             ([], Some (Error ''deals query failed'')),
           Log ErrorLevel ''error solving'' (DataError (Error ''deals query failed'')),
           ChanSend (Error ''deals query failed'')]\<rparr>)"
    by simp
  have "solve cancelled \<lparr>ext = 0, trace = setupActions\<rparr>
          = (None, \<lparr>ext = 0, trace = setupActions @ cycleOfProvider cancelled\<rparr>)
        \<and> ctx_select (clients cancelled)
            (ext \<lparr>ext = 0, trace = setupActions @ cycleOfProvider cancelled\<rparr>)
          = (CtxDone, 0)"
    by (simp add: cancelled_solve cancelled_select)
  from canc [THEN conjunct2, THEN conjunct2, THEN conjunct2, THEN conjunct2, THEN conjunct1,
             rule_format, OF this, of 0]
  have a6: "Start (Suc 0) cancelled world0 =
       Some (Returns \<lparr>ext = 0, trace = (setupActions @ cycleOfProvider cancelled) @ [Select CtxDone]\<rparr>)"
    by simp
  have a7: "Start (Suc (Suc 0)) steady world0 = None"
    by (simp add: Start_def steady_setup steady_loop del: Start_loop.simps)
  have a8: "since \<lparr>ext = 0, trace = setupActions\<rparr>
        (Start_loop_reached (Suc (Suc 0)) steady \<lparr>ext = 0, trace = setupActions\<rparr>)
       = (cycleOfProvider steady @ Select TimerFired # cycleOfProvider steady) @ [Select TimerFired]"
    unfolding steady_reached by (simp add: since_def)
  note reach = stdy [THEN conjunct2, THEN conjunct2, THEN conjunct2, THEN conjunct2,
                     THEN conjunct2, THEN conjunct2, THEN conjunct1, rule_format, of "Suc 0"]
  from reach have a9: "\<exists>rest. since \<lparr>ext = 0, trace = setupActions\<rparr>
                 (Start_loop_reached (Suc (Suc 0)) steady \<lparr>ext = 0, trace = setupActions\<rparr>)
               = Log DebugLevel ''solving'' (DataText []) # rest"
    by (rule conjunct1)
  have a10: "\<exists>wa wb. solve steady wa = (None, wb)
         \<and> trace wb = setupActions @ cycleOfProvider steady @ Select TimerFired # cycleOfProvider steady"
    using reach [THEN conjunct2, rule_format, OF a8] by simp
  from flaky_setup a1 t a2 a3 a4 a5 a6 a7 a8 a9 a10 show ?thesis
    by (intro conjI)
qed

end
